theory Spec2Isabelle
  imports Complex_Main "HOL-Library.Char_ord" "HOL-Library.List_Lexorder"
begin

section \<open>Errors\<close>

text \<open>
  The resolvers are Python functions over Django's object-relational mapper. Every way
  one of them can fail is a value of \<open>error\<close>; a resolver returns \<open>error + result\<close>,
  with \<open>Inl\<close> for the exception that leaves it.
  \<^item> \<open>DoesNotExist\<close>, \<open>MultipleObjectsReturned\<close>: raised by \<open>Model.objects.get\<close>;
  \<^item> \<open>ZeroDivisionError\<close>: Python's \<open>//\<close> with divisor 0;
  \<^item> \<open>NegativeIndexing\<close>: a query set sliced with a negative bound
    ("Negative indexing is not supported.");
  \<^item> \<open>FieldError\<close>: \<open>order_by\<close> on a name that is no column.
\<close>

datatype error =
    DoesNotExist
  | MultipleObjectsReturned
  | ZeroDivisionError
  | NegativeIndexing
  | FieldError

section \<open>App 3: the product catalogue\<close>

subsection \<open>Models\<close>

text \<open>
  \<open>filtering_app/models.py\<close>. A row of a table is a record; the primary key that Django
  adds is the first field of each. A decimal column and a float argument are the exact
  rational they stand for; date and time columns are integers (a point on the time line).
  A table is the list of its rows, in the order the database holds them.
\<close>

record Category =
  cat_id :: int
  cat_name :: string
  cat_slug :: string
  cat_description :: string
  cat_created_at :: int

record Product =
  product_id :: int
  product_name :: string
  product_slug :: string
  product_description :: string
  product_category_id :: int
  product_price :: rat
  product_discount_percent :: int
  product_stock_quantity :: int
  product_sku :: string
  product_is_featured :: bool
  product_is_active :: bool
  product_rating :: rat
  product_review_count :: int
  product_created_at :: int
  product_updated_at :: int
  product_published_date :: "int option"

record filtering_db =
  db_categories :: "Category list"
  db_products :: "Product list"

subsection \<open>GraphQL input and output types\<close>

text \<open>
  \<open>config/schema.py\<close>, lines 114 to 169. An optional GraphQL argument that the caller
  leaves out (or gives as null) reaches the resolver as Python's \<open>None\<close>: \<open>None\<close> here.
\<close>

record ProductFilterInput =
  filter_name :: "string option"
  filter_category_id :: "int option"
  filter_is_active :: "bool option"
  filter_is_featured :: "bool option"
  filter_price_min :: "rat option"
  filter_price_max :: "rat option"
  filter_rating_min :: "rat option"
  filter_has_stock :: "bool option"

record SortInput =
  sort_field :: string
  sort_order :: "string option"

record ProductPaginatedType =
  pg_items :: "Product list"
  pg_total_count :: int
  pg_page :: int
  pg_page_size :: int
  pg_total_pages :: int
  pg_has_next :: bool
  pg_has_previous :: bool

record ProductEdge =
  edge_node :: Product
  edge_cursor :: string

record PageInfo =
  pi_has_next_page :: bool
  pi_has_previous_page :: bool
  pi_start_cursor :: "string option"
  pi_end_cursor :: "string option"

record ProductConnection =
  conn_edges :: "ProductEdge list"
  conn_page_info :: PageInfo
  conn_total_count :: int

subsection \<open>What the resolvers use of Python and of the query set\<close>

text \<open>
  Python's truth test on an optional value: \<open>if v:\<close> holds when \<open>v\<close> is neither \<open>None\<close>
  nor the empty string (nor the integer 0). The result is the value the guarded
  statement may use, or \<open>None\<close> when the guard fails.
\<close>

definition truthy_str :: "string option \<Rightarrow> string option" where
  "truthy_str v = (case v of None \<Rightarrow> None | Some s \<Rightarrow> if s = [] then None else Some s)"

definition truthy_int :: "int option \<Rightarrow> int option" where
  "truthy_int v = (case v of None \<Rightarrow> None | Some i \<Rightarrow> if i = 0 then None else Some i)"

text \<open>
  \<open>if v is not None: queryset = queryset.filter(P v)\<close>: the query set narrowed by one
  predicate when its argument is there, and left as it is otherwise.
\<close>

definition opt_filter :: "'a option \<Rightarrow> ('a \<Rightarrow> 'r \<Rightarrow> bool) \<Rightarrow> 'r list \<Rightarrow> 'r list" where
  "opt_filter v P queryset = (case v of None \<Rightarrow> queryset | Some x \<Rightarrow> filter (P x) queryset)"

text \<open>
  The lookup \<open>name__icontains\<close>: the needle occurs in the column as a contiguous
  substring, letters \<open>A\<close> to \<open>Z\<close> compared without case.
\<close>

definition lower_char :: "char \<Rightarrow> char" where
  "lower_char c =
     (case map_of (zip ''ABCDEFGHIJKLMNOPQRSTUVWXYZ'' ''abcdefghijklmnopqrstuvwxyz'') c of
        None \<Rightarrow> c
      | Some l \<Rightarrow> l)"

fun startswith :: "string \<Rightarrow> string \<Rightarrow> bool" where
  "startswith [] s = True"
| "startswith (c # cs) [] = False"
| "startswith (c # cs) (d # ds) = (c = d \<and> startswith cs ds)"

fun contains_str :: "string \<Rightarrow> string \<Rightarrow> bool" where
  "contains_str needle [] = (needle = [])"
| "contains_str needle (d # ds) = (startswith needle (d # ds) \<or> contains_str needle ds)"

definition icontains :: "string \<Rightarrow> string \<Rightarrow> bool" where
  "icontains column needle = contains_str (map lower_char needle) (map lower_char column)"

text \<open>
  A lookup on a decimal column (\<open>price__gte\<close>, \<open>price__lte\<close>, \<open>rating__gte\<close>) does not
  compare the column with the float it is given: the column's field first turns the
  float into a decimal, \<open>Context(prec=max_digits).create_decimal_from_float\<close>, which rounds
  the float's exact value to \<open>max_digits\<close> significant digits, ties to the even digit.
  \<open>adjusted\<close> is the decimal exponent of the leading digit of a value other than 0.
\<close>

fun ndigits :: "nat \<Rightarrow> nat" where
  "ndigits n = (if n < 10 then 1 else Suc (ndigits (n div 10)))"

declare ndigits.simps [simp del]

definition round_half_even :: "rat \<Rightarrow> int" where
  "round_half_even x =
     (let f = \<lfloor>x\<rfloor>; r = x - of_int f
      in if r < 1 / 2 then f
         else if 1 / 2 < r then f + 1
         else if even f then f
         else f + 1)"

definition adjusted :: "rat \<Rightarrow> int" where
  "adjusted x =
     (let a = \<bar>x\<bar>
      in if 1 \<le> a then int (ndigits (nat \<lfloor>a\<rfloor>)) - 1
         else - int (ndigits (nat (\<lceil>1 / a\<rceil> - 1))))"

definition create_decimal_from_float :: "nat \<Rightarrow> rat \<Rightarrow> rat" where
  "create_decimal_from_float prec x =
     (if x = 0 then 0
      else
        (let s = int prec - 1 - adjusted x
         in if 0 \<le> s then of_int (round_half_even (x * 10 ^ nat s)) / 10 ^ nat s
            else of_int (round_half_even (x / 10 ^ nat (- s))) * 10 ^ nat (- s)))"

text \<open>
  The two decimal columns of \<open>Product\<close>: \<open>price\<close> has \<open>max_digits = 10\<close>, \<open>rating\<close> has
  \<open>max_digits = 3\<close>.
\<close>

definition price_to_python :: "rat \<Rightarrow> rat" where
  "price_to_python v = create_decimal_from_float 10 v"

definition rating_to_python :: "rat \<Rightarrow> rat" where
  "rating_to_python v = create_decimal_from_float 3 v"

text \<open>
  \<open>queryset.order_by(spec)\<close>: a leading \<open>-\<close> asks for descending order of the column
  named by the rest. The four columns a resolver can name have a comparison; any other
  name is a \<open>FieldError\<close>. Rows with equal keys stay in the order the table has them (the
  database promises no order among them).
\<close>

fun insort_by :: "('r \<Rightarrow> 'r \<Rightarrow> bool) \<Rightarrow> 'r \<Rightarrow> 'r list \<Rightarrow> 'r list" where
  "insort_by le x [] = [x]"
| "insort_by le x (y # ys) = (if le x y then x # y # ys else y # insort_by le x ys)"

fun sort_by :: "('r \<Rightarrow> 'r \<Rightarrow> bool) \<Rightarrow> 'r list \<Rightarrow> 'r list" where
  "sort_by le [] = []"
| "sort_by le (x # xs) = insort_by le x (sort_by le xs)"

definition column_le :: "string \<Rightarrow> (Product \<Rightarrow> Product \<Rightarrow> bool) option" where
  "column_le column =
     (if column = ''name'' then Some (\<lambda>a b. product_name a \<le> product_name b)
      else if column = ''price'' then Some (\<lambda>a b. product_price a \<le> product_price b)
      else if column = ''rating'' then Some (\<lambda>a b. product_rating a \<le> product_rating b)
      else if column = ''created_at'' then
        Some (\<lambda>a b. product_created_at a \<le> product_created_at b)
      else None)"

definition order_by :: "string \<Rightarrow> Product list \<Rightarrow> error + Product list" where
  "order_by spec queryset =
     (let descending = (spec \<noteq> [] \<and> hd spec = CHR ''-'');
          column = (if descending then tl spec else spec)
      in case column_le column of
           None \<Rightarrow> Inl FieldError
         | Some le \<Rightarrow>
             Inr (sort_by (if descending then (\<lambda>a b. le b a) else le) queryset))"

text \<open>
  \<open>queryset[start:stop]\<close>: Django refuses a negative bound; otherwise the rows from
  position \<open>start\<close> up to, not including, position \<open>stop\<close> (none when \<open>stop \<le> start\<close> or
  \<open>start\<close> is past the end). \<open>queryset[:stop]\<close> has no start.
\<close>

definition qs_slice :: "'r list \<Rightarrow> int \<Rightarrow> int \<Rightarrow> error + 'r list" where
  "qs_slice queryset start stop =
     (if start < 0 \<or> stop < 0 then Inl NegativeIndexing
      else Inr (take (nat (stop - start)) (drop (nat start) queryset)))"

definition qs_slice_to :: "'r list \<Rightarrow> int \<Rightarrow> error + 'r list" where
  "qs_slice_to queryset stop =
     (if stop < 0 then Inl NegativeIndexing else Inr (take (nat stop) queryset))"

text \<open>
  \<open>dict.get(key, default)\<close> and \<open>str(i)\<close> for an integer \<open>i\<close> (decimal digits, a minus
  sign first when negative).
\<close>

definition dict_get :: "('k \<rightharpoonup> 'v) \<Rightarrow> 'k \<Rightarrow> 'v \<Rightarrow> 'v" where
  "dict_get d k fallback = (case d k of None \<Rightarrow> fallback | Some v \<Rightarrow> v)"

fun str_nat :: "nat \<Rightarrow> string" where
  "str_nat n =
     (if n < 10 then [''0123456789'' ! n]
      else str_nat (n div 10) @ [''0123456789'' ! (n mod 10)])"

declare str_nat.simps [simp del]

definition str_int :: "int \<Rightarrow> string" where
  "str_int i = (if i < 0 then CHR ''-'' # str_nat (nat (- i)) else str_nat (nat i))"

subsection \<open>\<open>resolve_products_filtered\<close>: filter, sort, offset pagination\<close>

text \<open>
  Lines 255 to 275, the body of \<open>if filters:\<close>. The first two guards are truth tests,
  the other six are \<open>is not None\<close>. An input object with no key is false in Python and
  skips the block; run on it, the block applies nothing, so both give the same rows. The
  three bounds are floats and pass through the conversion of their column.
\<close>

definition apply_filters :: "ProductFilterInput \<Rightarrow> Product list \<Rightarrow> Product list" where
  "apply_filters filters queryset =
     (let queryset = opt_filter (truthy_str (filter_name filters))
                       (\<lambda>v p. icontains (product_name p) v) queryset;
          queryset = opt_filter (truthy_int (filter_category_id filters))
                       (\<lambda>v p. product_category_id p = v) queryset;
          queryset = opt_filter (filter_is_active filters)
                       (\<lambda>v p. product_is_active p = v) queryset;
          queryset = opt_filter (filter_is_featured filters)
                       (\<lambda>v p. product_is_featured p = v) queryset;
          queryset = opt_filter (filter_price_min filters)
                       (\<lambda>v p. product_price p \<ge> price_to_python v) queryset;
          queryset = opt_filter (filter_price_max filters)
                       (\<lambda>v p. product_price p \<le> price_to_python v) queryset;
          queryset = opt_filter (filter_rating_min filters)
                       (\<lambda>v p. product_rating p \<ge> rating_to_python v) queryset;
          queryset = opt_filter (filter_has_stock filters)
                       (\<lambda>v p. if v then product_stock_quantity p > 0
                               else product_stock_quantity p = 0) queryset
      in queryset)"

text \<open>Lines 277 to 289: the sort, with \<open>-created_at\<close> when no sort is given.\<close>

definition field_map :: "string \<rightharpoonup> string" where
  "field_map =
     [''name'' \<mapsto> ''name'', ''price'' \<mapsto> ''price'', ''rating'' \<mapsto> ''rating'',
      ''created_at'' \<mapsto> ''created_at'']"

definition apply_sort :: "SortInput option \<Rightarrow> Product list \<Rightarrow> error + Product list" where
  "apply_sort sort_input queryset =
     (case sort_input of
        Some s \<Rightarrow>
          (let field = dict_get field_map (sort_field s) ''created_at'';
               order = (if sort_order s = Some ''desc'' then ''-'' else '''')
           in order_by (order @ field) queryset)
      | None \<Rightarrow> order_by ''-created_at'' queryset)"

text \<open>Lines 253 to 289: the filtered, sorted view that the paginator slices.\<close>

definition products_view ::
  "Product list \<Rightarrow> ProductFilterInput option \<Rightarrow> SortInput option \<Rightarrow> error + Product list"
where
  "products_view objects filters sort_input =
     (let queryset = objects;
          queryset = (case filters of None \<Rightarrow> queryset | Some f \<Rightarrow> apply_filters f queryset)
      in apply_sort sort_input queryset)"

text \<open>
  Lines 291 to 306. Python's \<open>//\<close> on integers is floor division, as \<open>div\<close> on \<open>int\<close>
  is, and raises on a zero divisor.
\<close>

definition resolve_products_filtered ::
  "Product list \<Rightarrow> ProductFilterInput option \<Rightarrow> SortInput option \<Rightarrow> int \<Rightarrow> int
     \<Rightarrow> error + ProductPaginatedType"
where
  "resolve_products_filtered objects filters sort_input page page_size =
     (case products_view objects filters sort_input of
        Inl e \<Rightarrow> Inl e
      | Inr queryset \<Rightarrow>
          (let total_count = int (length queryset) in
           if page_size = 0 then Inl ZeroDivisionError
           else
             (let total_pages = (total_count + page_size - 1) div page_size;
                  offset = (page - 1) * page_size
              in case qs_slice queryset offset (offset + page_size) of
                   Inl e \<Rightarrow> Inl e
                 | Inr items \<Rightarrow>
                     Inr \<lparr>pg_items = items, pg_total_count = total_count, pg_page = page,
                          pg_page_size = page_size, pg_total_pages = total_pages,
                          pg_has_next = (page < total_pages),
                          pg_has_previous = (page > 1)\<rparr>)))"

subsection \<open>\<open>resolve_products_paginated\<close>: the cursor connection\<close>

text \<open>Lines 310 to 320: the filtered view of the connection, newest first.\<close>

definition connection_view ::
  "Product list \<Rightarrow> string option \<Rightarrow> int option \<Rightarrow> bool option \<Rightarrow> error + Product list"
where
  "connection_view objects name category_id is_active =
     (let queryset = objects;
          queryset = opt_filter (truthy_str name)
                       (\<lambda>v p. icontains (product_name p) v) queryset;
          queryset = opt_filter (truthy_int category_id)
                       (\<lambda>v p. product_category_id p = v) queryset;
          queryset = opt_filter is_active (\<lambda>v p. product_is_active p = v) queryset
      in order_by ''-created_at'' queryset)"

text \<open>
  Lines 308 to 345. The argument \<open>after\<close> is a parameter of the resolver and is read
  nowhere in its body.
\<close>

definition resolve_products_paginated ::
  "Product list \<Rightarrow> string option \<Rightarrow> int option \<Rightarrow> bool option \<Rightarrow> int \<Rightarrow> string option
     \<Rightarrow> error + ProductConnection"
where
  "resolve_products_paginated objects name category_id is_active first after =
     (case connection_view objects name category_id is_active of
        Inl e \<Rightarrow> Inl e
      | Inr queryset \<Rightarrow>
          (let total_count = int (length queryset) in
           case qs_slice_to queryset first of
             Inl e \<Rightarrow> Inl e
           | Inr items \<Rightarrow>
               (let edges = map (\<lambda>item. \<lparr>edge_node = item,
                              edge_cursor = ''cursor_'' @ str_int (product_id item)\<rparr>) items;
                    page_info = \<lparr>pi_has_next_page = (total_count > first),
                                 pi_has_previous_page = False,
                                 pi_start_cursor =
                                   (if edges \<noteq> [] then Some (edge_cursor (hd edges))
                                    else None),
                                 pi_end_cursor =
                                   (if edges \<noteq> [] then Some (edge_cursor (last edges))
                                    else None)\<rparr>
                in Inr \<lparr>conn_edges = edges, conn_page_info = page_info,
                        conn_total_count = total_count\<rparr>)))"

subsection \<open>Single records and the average price\<close>

text \<open>
  \<open>Model.objects.get(pk=i)\<close> selects the rows whose key is \<open>i\<close>: none is
  \<open>DoesNotExist\<close>, more than one is \<open>MultipleObjectsReturned\<close>. The resolvers wrap it in
  \<open>try: return ... except Model.DoesNotExist: return None\<close>, which turns the first
  exception into the result \<open>None\<close> and lets any other pass.
\<close>

definition objects_get :: "('r \<Rightarrow> int) \<Rightarrow> 'r list \<Rightarrow> int \<Rightarrow> error + 'r" where
  "objects_get key rows i =
     (case filter (\<lambda>r. key r = i) rows of
        [] \<Rightarrow> Inl DoesNotExist
      | [r] \<Rightarrow> Inr r
      | _ # _ # _ \<Rightarrow> Inl MultipleObjectsReturned)"

definition except_DoesNotExist :: "error + 'r \<Rightarrow> error + 'r option" where
  "except_DoesNotExist attempt =
     (case attempt of
        Inr r \<Rightarrow> Inr (Some r)
      | Inl DoesNotExist \<Rightarrow> Inr None
      | Inl e \<Rightarrow> Inl e)"

text \<open>
  Lines 236 to 249. A lookup reads the database and writes nothing: each resolver
  returns its answer together with the database as it leaves it.
\<close>

definition resolve_category ::
  "filtering_db \<Rightarrow> int \<Rightarrow> (error + Category option) \<times> filtering_db" where
  "resolve_category db pk = (except_DoesNotExist (objects_get cat_id (db_categories db) pk), db)"

definition resolve_product ::
  "filtering_db \<Rightarrow> int \<Rightarrow> (error + Product option) \<times> filtering_db" where
  "resolve_product db pk = (except_DoesNotExist (objects_get product_id (db_products db) pk), db)"

text \<open>
  The aggregates of \<open>django.db.models\<close> over one column: \<open>Avg\<close>, \<open>Max\<close> and \<open>Min\<close> of no
  row are SQL's NULL, Python's \<open>None\<close>; \<open>Count\<close> of no row is 0.
\<close>

definition Avg :: "rat list \<Rightarrow> rat option" where
  "Avg vs = (if vs = [] then None else Some (sum_list vs / of_nat (length vs)))"

fun Max_agg :: "rat list \<Rightarrow> rat option" where
  "Max_agg [] = None"
| "Max_agg (v # vs) = Some (fold max vs v)"

fun Min_agg :: "rat list \<Rightarrow> rat option" where
  "Min_agg [] = None"
| "Min_agg (v # vs) = Some (fold min vs v)"

definition Count :: "'r list \<Rightarrow> int" where
  "Count rows = int (length rows)"

text \<open>
  Lines 361 to 365: \<open>return float(avg) if avg else 0\<close>. The field is a nullable GraphQL
  Float, so the resolver's value is \<open>Some\<close> number or \<open>None\<close> for null. The truth test
  fails on \<open>None\<close> and on a zero average alike.
\<close>

definition resolve_avg_product_price :: "Product list \<Rightarrow> rat option" where
  "resolve_avg_product_price objects =
     (let avg = Avg (map product_price objects)
      in case avg of
           None \<Rightarrow> Some 0
         | Some a \<Rightarrow> if a \<noteq> 0 then Some a else Some 0)"

section \<open>App 1: authors and books\<close>

text \<open>\<open>basics_app/models.py\<close> and the two lookups of \<open>config/schema.py\<close>.\<close>

record Author =
  author_id :: int
  author_name :: string
  author_email :: string
  author_created_at :: int

record Book =
  book_id :: int
  book_title :: string
  book_description :: string
  book_author_id :: int
  book_published_date :: int
  book_created_at :: int

record basics_db =
  db_authors :: "Author list"
  db_books :: "Book list"

definition resolve_author :: "basics_db \<Rightarrow> int \<Rightarrow> (error + Author option) \<times> basics_db" where
  "resolve_author db pk = (except_DoesNotExist (objects_get author_id (db_authors db) pk), db)"

definition resolve_book :: "basics_db \<Rightarrow> int \<Rightarrow> (error + Book option) \<times> basics_db" where
  "resolve_book db pk = (except_DoesNotExist (objects_get book_id (db_books db) pk), db)"

section \<open>App 5: organisations, employees, projects, metrics\<close>

text \<open>
  \<open>perf_app/models.py\<close>. The many-to-many relation \<open>team_members\<close> is the list of the
  members' keys. The float column \<open>value\<close> is an exact rational.
\<close>

record Organization =
  org_id :: int
  org_name :: string
  org_slug :: string
  org_description :: string
  org_website :: "string option"
  org_employee_count :: int
  org_is_active :: bool
  org_created_at :: int
  org_updated_at :: int

record Employee =
  employee_id :: int
  employee_name :: string
  employee_email :: string
  employee_department :: string
  employee_salary :: rat
  employee_organization_id :: int
  employee_is_active :: bool
  employee_hire_date :: int
  employee_created_at :: int
  employee_updated_at :: int

record Project =
  project_id :: int
  project_name :: string
  project_slug :: string
  project_description :: string
  project_status :: string
  project_organization_id :: int
  project_team_members :: "int list"
  project_budget :: rat
  project_start_date :: int
  project_end_date :: "int option"
  project_completion_percentage :: int
  project_created_at :: int
  project_updated_at :: int

record Performance =
  perf_id :: int
  perf_metric_type :: string
  perf_value :: rat
  perf_endpoint :: string
  perf_status_code :: int
  perf_timestamp :: int

record perf_db =
  db_organizations :: "Organization list"
  db_employees :: "Employee list"
  db_projects :: "Project list"
  db_performances :: "Performance list"

record PerformanceMetricsType =
  pm_metric_type :: string
  pm_average_value :: "rat option"
  pm_count :: int
  pm_max_value :: "rat option"
  pm_min_value :: "rat option"

text \<open>\<open>config/schema.py\<close>, lines 189 to 246: the three lookups.\<close>

definition resolve_organization ::
  "perf_db \<Rightarrow> int \<Rightarrow> (error + Organization option) \<times> perf_db" where
  "resolve_organization db pk =
     (except_DoesNotExist (objects_get org_id (db_organizations db) pk), db)"

definition resolve_employee :: "perf_db \<Rightarrow> int \<Rightarrow> (error + Employee option) \<times> perf_db" where
  "resolve_employee db pk =
     (except_DoesNotExist (objects_get employee_id (db_employees db) pk), db)"

definition resolve_project :: "perf_db \<Rightarrow> int \<Rightarrow> (error + Project option) \<times> perf_db" where
  "resolve_project db pk =
     (except_DoesNotExist (objects_get project_id (db_projects db) pk), db)"

text \<open>Lines 269 to 284: the four aggregates over the rows of one metric type.\<close>

definition resolve_performance_summary :: "Performance list \<Rightarrow> string \<Rightarrow> PerformanceMetricsType"
where
  "resolve_performance_summary objects metric_type =
     (let rows = filter (\<lambda>r. perf_metric_type r = metric_type) objects;
          values = map perf_value rows
      in \<lparr>pm_metric_type = metric_type,
          pm_average_value = Avg values,
          pm_count = Count rows,
          pm_max_value = Max_agg values,
          pm_min_value = Min_agg values\<rparr>)"

section \<open>Sample data\<close>

text \<open>
  Five products in the manner of the test suite's \<open>sample_products\<close>, with the prices of
  the catalogue scenario; the table holds them in the order of their creation.
\<close>

definition sample_product ::
  "int \<Rightarrow> string \<Rightarrow> int \<Rightarrow> rat \<Rightarrow> int \<Rightarrow> bool \<Rightarrow> int \<Rightarrow> Product" where
  "sample_product i n c price stock active created =
     \<lparr>product_id = i, product_name = n, product_slug = n, product_description = [],
      product_category_id = c, product_price = price, product_discount_percent = 0,
      product_stock_quantity = stock, product_sku = n, product_is_featured = False,
      product_is_active = active, product_rating = 4, product_review_count = 0,
      product_created_at = created, product_updated_at = created,
      product_published_date = None\<rparr>"

definition laptop :: Product where
  "laptop = sample_product 1 ''Laptop'' 1 (99999 / 100) 50 True 1"

definition python_book :: Product where
  "python_book = sample_product 2 ''Python Book'' 2 (4999 / 100) 200 True 2"

definition tshirt :: Product where
  "tshirt = sample_product 3 ''T-Shirt'' 3 (1999 / 100) 0 False 3"

definition mouse :: Product where
  "mouse = sample_product 4 ''Mouse'' 1 (2999 / 100) 150 True 4"

definition novel :: Product where
  "novel = sample_product 5 ''Novel'' 2 (9999 / 100) 100 True 5"

definition sample_products :: "Product list" where
  "sample_products = [laptop, python_book, tshirt, mouse, novel]"

definition no_filters :: ProductFilterInput where
  "no_filters =
     \<lparr>filter_name = None, filter_category_id = None, filter_is_active = None,
      filter_is_featured = None, filter_price_min = None, filter_price_max = None,
      filter_rating_min = None, filter_has_stock = None\<rparr>"

text \<open>
  A product that costs nothing, is out of stock, inactive and not featured, and an
  input in which every filter is given its false or zero value.
\<close>

definition sticker :: Product where
  "sticker = sample_product 6 ''Sticker'' 3 0 0 False 6"

definition falsy_filters :: ProductFilterInput where
  "falsy_filters =
     \<lparr>filter_name = Some [], filter_category_id = Some 0, filter_is_active = Some False,
      filter_is_featured = Some False, filter_price_min = Some 0, filter_price_max = Some 0,
      filter_rating_min = Some 0, filter_has_stock = Some False\<rparr>"

text \<open>One row in each of the other tables, and two measurements of one metric type.\<close>

definition sample_filtering_db :: filtering_db where
  "sample_filtering_db =
     \<lparr>db_categories = [\<lparr>cat_id = 1, cat_name = ''Electronics'', cat_slug = ''electronics'',
                         cat_description = ''Electronic items'', cat_created_at = 1\<rparr>],
      db_products = sample_products\<rparr>"

definition sample_basics_db :: basics_db where
  "sample_basics_db =
     \<lparr>db_authors = [\<lparr>author_id = 1, author_name = ''Ada'', author_email = ''ada@example.com'',
                      author_created_at = 1\<rparr>],
      db_books = [\<lparr>book_id = 1, book_title = ''Notes'', book_description = [],
                    book_author_id = 1, book_published_date = 1, book_created_at = 2\<rparr>]\<rparr>"

definition sample_perf_db :: perf_db where
  "sample_perf_db =
     \<lparr>db_organizations =
        [\<lparr>org_id = 1, org_name = ''Acme'', org_slug = ''acme'', org_description = [],
          org_website = None, org_employee_count = 1, org_is_active = True,
          org_created_at = 1, org_updated_at = 1\<rparr>],
      db_employees =
        [\<lparr>employee_id = 1, employee_name = ''Bo'', employee_email = ''bo@example.com'',
          employee_department = ''Engineering'', employee_salary = 1000,
          employee_organization_id = 1, employee_is_active = True, employee_hire_date = 1,
          employee_created_at = 1, employee_updated_at = 1\<rparr>],
      db_projects =
        [\<lparr>project_id = 1, project_name = ''Site'', project_slug = ''site'',
          project_description = [], project_status = ''planning'',
          project_organization_id = 1, project_team_members = [1], project_budget = 500,
          project_start_date = 1, project_end_date = None, project_completion_percentage = 0,
          project_created_at = 1, project_updated_at = 1\<rparr>],
      db_performances =
        [\<lparr>perf_id = 1, perf_metric_type = ''api_response'', perf_value = 120,
          perf_endpoint = ''/graphql'', perf_status_code = 200, perf_timestamp = 1\<rparr>,
         \<lparr>perf_id = 2, perf_metric_type = ''api_response'', perf_value = 80,
          perf_endpoint = ''/graphql'', perf_status_code = 200, perf_timestamp = 2\<rparr>]\<rparr>"

section \<open>Facts about the building blocks\<close>

subsection \<open>Page arithmetic\<close>

lemma ceil_div_int:
  fixes n k :: int
  assumes k: "0 < k"
  shows "(n + k - 1) div k = - ((- n) div k)"
proof -
  define q r where "q = n div k" and "r = n mod k"
  have n: "n = q * k + r" and r: "0 \<le> r" "r < k" using k by (simp_all add: q_def r_def)
  show ?thesis
  proof (cases "r = 0")
    case True
    have "(q * k + (k - 1)) div k = q" using k by (subst div_mult_self3) auto
    moreover have "(- n) div k = - q" using k True
      by (simp add: zdiv_zminus1_eq_if q_def r_def)
    ultimately show ?thesis using n True by (simp add: algebra_simps)
  next
    case False
    have "(n + k - 1) = (q + 1) * k + (r - 1)" using n by (simp add: algebra_simps)
    then have "(n + k - 1) div k = q + 1 + (r - 1) div k" using k
      by (metis add.commute div_mult_self3 less_irrefl)
    moreover have "(r - 1) div k = 0" using r False by (simp add: div_pos_pos_trivial)
    moreover have "(- n) div k = - q - 1" using k False
      by (simp add: zdiv_zminus1_eq_if q_def r_def)
    ultimately show ?thesis by simp
  qed
qed

lemma total_pages_ceiling:
  fixes n k :: int
  shows "0 < k \<Longrightarrow> (n + k - 1) div k = \<lceil>rat_of_int n / rat_of_int k\<rceil>"
  by (simp add: ceiling_divide_eq_div ceil_div_int)

lemma ceiling_rat_numeral:
  "\<lceil>(numeral a :: rat) / numeral b\<rceil> = - (- numeral a div numeral b)"
  using ceiling_divide_eq_div [of "numeral a" "numeral b", where ?'a = rat] by simp

lemma total_pages_covers:
  fixes n k :: int
  assumes "0 < k"
  shows "n \<le> ((n + k - 1) div k) * k"
proof -
  have "(n + k - 1) mod k < k" using assms by simp
  moreover have "n + k - 1 = ((n + k - 1) div k) * k + (n + k - 1) mod k" by simp
  ultimately show ?thesis by linarith
qed

subsection \<open>Sorting keeps the rows and never fails\<close>

lemma set_insort_by: "set (insort_by le x xs) = insert x (set xs)"
  by (induction xs) auto

lemma set_sort_by: "set (sort_by le xs) = set xs"
  by (induction xs) (auto simp: set_insort_by)

lemma length_insort_by: "length (insort_by le x xs) = Suc (length xs)"
  by (induction xs) auto

lemma length_sort_by: "length (sort_by le xs) = length xs"
  by (induction xs) (auto simp: length_insort_by)

lemma field_map_cases:
  "dict_get field_map k ''created_at'' = ''name'' \<or> dict_get field_map k ''created_at'' = ''price'' \<or>
   dict_get field_map k ''created_at'' = ''rating'' \<or> dict_get field_map k ''created_at'' = ''created_at''"
  by (simp add: dict_get_def field_map_def)

lemma order_by_known:
  assumes "c = ''name'' \<or> c = ''price'' \<or> c = ''rating'' \<or> c = ''created_at''"
    and "d = ''-'' \<or> d = ''''"
  shows "\<exists>le. order_by (d @ c) qs = Inr (sort_by le qs)"
  using assms by (auto simp: order_by_def column_le_def)

lemma apply_sort_unknown_field:
  assumes "sort_field s \<notin> {''name'', ''price'', ''rating'', ''created_at''}"
  shows "apply_sort (Some s) qs = apply_sort (Some (s\<lparr>sort_field := ''created_at''\<rparr>)) qs"
  using assms by (simp add: apply_sort_def dict_get_def field_map_def)

lemma apply_sort_total: "\<exists>le. apply_sort s qs = Inr (sort_by le qs)"
proof (cases s)
  case None
  then show ?thesis using order_by_known [of "''created_at''" "''-''" qs]
    by (simp add: apply_sort_def)
next
  case (Some a)
  then show ?thesis
    using order_by_known [OF field_map_cases, of "if sort_order a = Some ''desc'' then ''-'' else ''''" "sort_field a" qs]
    by (simp add: apply_sort_def Let_def)
qed

lemma products_view_total:
  "\<exists>view. products_view objects filters s = Inr view \<and>
     set view = set (case filters of None \<Rightarrow> objects | Some f \<Rightarrow> apply_filters f objects) \<and>
     length view = length (case filters of None \<Rightarrow> objects | Some f \<Rightarrow> apply_filters f objects)"
proof -
  obtain le where "apply_sort s (case filters of None \<Rightarrow> objects | Some f \<Rightarrow> apply_filters f objects)
     = Inr (sort_by le (case filters of None \<Rightarrow> objects | Some f \<Rightarrow> apply_filters f objects))"
    using apply_sort_total by blast
  then show ?thesis
    by (simp add: products_view_def set_sort_by length_sort_by)
qed

subsection \<open>The paginator on a request in range\<close>

lemma resolve_in_range:
  assumes v: "products_view objects filters s = Inr view"
    and p: "1 \<le> page" and k: "1 \<le> page_size"
  shows "resolve_products_filtered objects filters s page page_size =
     Inr \<lparr>pg_items = take (nat page_size) (drop (nat ((page - 1) * page_size)) view),
          pg_total_count = int (length view), pg_page = page, pg_page_size = page_size,
          pg_total_pages = (int (length view) + page_size - 1) div page_size,
          pg_has_next = (page < (int (length view) + page_size - 1) div page_size),
          pg_has_previous = (page > 1)\<rparr>"
proof -
  have off: "0 \<le> (page - 1) * page_size" using p k by simp
  then have "\<not> ((page - 1) * page_size < 0 \<or> (page - 1) * page_size + page_size < 0)"
    using k by linarith
  then show ?thesis using v k
    by (simp add: resolve_products_filtered_def qs_slice_def Let_def)
qed

lemma resolve_first_page:
  "products_view objects filters s = Inr view \<Longrightarrow> int (length view) \<le> 10 \<Longrightarrow>
   resolve_products_filtered objects filters s 1 10 =
     Inr \<lparr>pg_items = view, pg_total_count = int (length view), pg_page = 1, pg_page_size = 10,
          pg_total_pages = (int (length view) + 9) div 10,
          pg_has_next = (1 < (int (length view) + 9) div 10), pg_has_previous = False\<rparr>"
  using resolve_in_range [of objects filters s view 1 10] by (simp add: add.commute)

subsection \<open>Floats as decimals\<close>

lemma price_to_python_zero: "price_to_python 0 = 0"
  by (simp add: price_to_python_def create_decimal_from_float_def)

lemma rating_to_python_zero: "rating_to_python 0 = 0"
  by (simp add: rating_to_python_def create_decimal_from_float_def)

lemma price_to_python_sample:
  "price_to_python 25 = 25"
  "price_to_python 100 = 100"
  "price_to_python (9999 / 100) = 9999 / 100"
  "price_to_python (29990000000001 / 1000000000000) = 2999 / 100"
  by code_simp+

lemma rating_to_python_sample: "rating_to_python (4001 / 1000) = 4"
  by code_simp

subsection \<open>Filters\<close>

lemma set_opt_filter: "set (opt_filter v P qs) = {r \<in> set qs. \<forall>x. v = Some x \<longrightarrow> P x r}"
  by (cases v) (auto simp: opt_filter_def)

lemma contains_str_empty: "contains_str [] s"
  by (cases s) simp_all

lemma icontains_empty: "icontains column []"
  by (simp add: icontains_def contains_str_empty)

lemma truthy_str_Some: "truthy_str v = Some x \<longleftrightarrow> v = Some x \<and> x \<noteq> []"
  by (cases v) (auto simp: truthy_str_def)

lemma truthy_int_Some: "truthy_int v = Some x \<longleftrightarrow> v = Some x \<and> x \<noteq> 0"
  by (cases v) (auto simp: truthy_int_def)

lemma apply_filters_iff:
  "p \<in> set (apply_filters f qs) \<longleftrightarrow>
     p \<in> set qs \<and>
     (\<forall>v. filter_name f = Some v \<longrightarrow> icontains (product_name p) v) \<and>
     (\<forall>v. filter_category_id f = Some v \<and> v \<noteq> 0 \<longrightarrow> product_category_id p = v) \<and>
     (\<forall>v. filter_is_active f = Some v \<longrightarrow> product_is_active p = v) \<and>
     (\<forall>v. filter_is_featured f = Some v \<longrightarrow> product_is_featured p = v) \<and>
     (\<forall>v. filter_price_min f = Some v \<longrightarrow> price_to_python v \<le> product_price p) \<and>
     (\<forall>v. filter_price_max f = Some v \<longrightarrow> product_price p \<le> price_to_python v) \<and>
     (\<forall>v. filter_rating_min f = Some v \<longrightarrow> rating_to_python v \<le> product_rating p) \<and>
     (filter_has_stock f = Some True \<longrightarrow> 0 < product_stock_quantity p) \<and>
     (filter_has_stock f = Some False \<longrightarrow> product_stock_quantity p = 0)"
proof -
  have name: "(\<forall>x. truthy_str (filter_name f) = Some x \<longrightarrow> icontains (product_name p) x) \<longleftrightarrow>
      (\<forall>v. filter_name f = Some v \<longrightarrow> icontains (product_name p) v)"
    using icontains_empty by (auto simp: truthy_str_Some)
  have stock: "(\<forall>x. filter_has_stock f = Some x \<longrightarrow>
        (if x then 0 < product_stock_quantity p else product_stock_quantity p = 0)) \<longleftrightarrow>
      (filter_has_stock f = Some True \<longrightarrow> 0 < product_stock_quantity p) \<and>
      (filter_has_stock f = Some False \<longrightarrow> product_stock_quantity p = 0)"
    by auto
  have "p \<in> set (apply_filters f qs) \<longleftrightarrow>
     p \<in> set qs \<and>
     (\<forall>x. truthy_str (filter_name f) = Some x \<longrightarrow> icontains (product_name p) x) \<and>
     (\<forall>v. truthy_int (filter_category_id f) = Some v \<longrightarrow> product_category_id p = v) \<and>
     (\<forall>v. filter_is_active f = Some v \<longrightarrow> product_is_active p = v) \<and>
     (\<forall>v. filter_is_featured f = Some v \<longrightarrow> product_is_featured p = v) \<and>
     (\<forall>v. filter_price_min f = Some v \<longrightarrow> price_to_python v \<le> product_price p) \<and>
     (\<forall>v. filter_price_max f = Some v \<longrightarrow> product_price p \<le> price_to_python v) \<and>
     (\<forall>v. filter_rating_min f = Some v \<longrightarrow> rating_to_python v \<le> product_rating p) \<and>
     (\<forall>x. filter_has_stock f = Some x \<longrightarrow>
        (if x then 0 < product_stock_quantity p else product_stock_quantity p = 0))"
    by (simp add: apply_filters_def Let_def set_opt_filter conj_ac)
  then show ?thesis
    unfolding name stock by (simp add: truthy_int_Some)
qed

lemma apply_filters_name_empty:
  "apply_filters (f\<lparr>filter_name := Some []\<rparr>) qs = apply_filters (f\<lparr>filter_name := None\<rparr>) qs"
  by (simp add: apply_filters_def truthy_str_def)

lemma apply_filters_category_zero:
  "apply_filters (f\<lparr>filter_category_id := Some 0\<rparr>) qs =
   apply_filters (f\<lparr>filter_category_id := None\<rparr>) qs"
  by (simp add: apply_filters_def truthy_int_def)

lemma products_view_name_empty:
  "products_view objects (Some (f\<lparr>filter_name := Some []\<rparr>)) s =
   products_view objects (Some (f\<lparr>filter_name := None\<rparr>)) s"
  by (simp add: products_view_def apply_filters_name_empty)

lemma products_view_category_zero:
  "products_view objects (Some (f\<lparr>filter_category_id := Some 0\<rparr>)) s =
   products_view objects (Some (f\<lparr>filter_category_id := None\<rparr>)) s"
  by (simp add: products_view_def apply_filters_category_zero)

lemma products_view_both_falsy:
  "products_view objects (Some (no_filters\<lparr>filter_name := Some [], filter_category_id := Some 0\<rparr>)) s =
   products_view objects None s"
  by (simp add: products_view_def apply_filters_def no_filters_def opt_filter_def
      truthy_str_def truthy_int_def)

lemma applied_is_active:
  "filter_is_active f = Some False \<Longrightarrow>
   set (apply_filters f qs) =
     {p \<in> set (apply_filters (f\<lparr>filter_is_active := None\<rparr>) qs). \<not> product_is_active p}"
  by (auto simp: apply_filters_iff)

lemma applied_is_featured:
  "filter_is_featured f = Some False \<Longrightarrow>
   set (apply_filters f qs) =
     {p \<in> set (apply_filters (f\<lparr>filter_is_featured := None\<rparr>) qs). \<not> product_is_featured p}"
  by (auto simp: apply_filters_iff)

lemma applied_has_stock:
  "filter_has_stock f = Some False \<Longrightarrow>
   set (apply_filters f qs) =
     {p \<in> set (apply_filters (f\<lparr>filter_has_stock := None\<rparr>) qs). product_stock_quantity p = 0}"
  by (auto simp: apply_filters_iff)

lemma applied_price_min:
  "filter_price_min f = Some 0 \<Longrightarrow>
   set (apply_filters f qs) =
     {p \<in> set (apply_filters (f\<lparr>filter_price_min := None\<rparr>) qs). 0 \<le> product_price p}"
  by (auto simp: apply_filters_iff price_to_python_zero)

lemma applied_price_max:
  "filter_price_max f = Some 0 \<Longrightarrow>
   set (apply_filters f qs) =
     {p \<in> set (apply_filters (f\<lparr>filter_price_max := None\<rparr>) qs). product_price p \<le> 0}"
  by (auto simp: apply_filters_iff price_to_python_zero)

lemma applied_rating_min:
  "filter_rating_min f = Some 0 \<Longrightarrow>
   set (apply_filters f qs) =
     {p \<in> set (apply_filters (f\<lparr>filter_rating_min := None\<rparr>) qs). 0 \<le> product_rating p}"
  by (auto simp: apply_filters_iff rating_to_python_zero)

lemma view_restricted:
  assumes "set (apply_filters f objects) = {p \<in> set (apply_filters f0 objects). P p}"
    and "products_view objects (Some f) s = Inr view"
  shows "\<exists>rest. products_view objects (Some f0) s = Inr rest \<and> set view = {p \<in> set rest. P p}"
  using assms products_view_total [of objects "Some f" s] products_view_total [of objects "Some f0" s]
  by auto

subsection \<open>Lookups\<close>

lemma objects_get_missing:
  "\<forall>r\<in>set rows. key r \<noteq> i \<Longrightarrow> objects_get key rows i = Inl DoesNotExist"
proof -
  assume "\<forall>r\<in>set rows. key r \<noteq> i"
  then have "filter (\<lambda>r. key r = i) rows = []" by (simp add: filter_empty_conv)
  then show ?thesis by (simp add: objects_get_def)
qed

lemma lookup_missing:
  "\<forall>r\<in>set rows. key r \<noteq> i \<Longrightarrow> except_DoesNotExist (objects_get key rows i) = Inr None"
  by (simp add: objects_get_missing except_DoesNotExist_def)

subsection \<open>The sample data\<close>

lemma sample_product_sel:
  "product_id (sample_product i n c price stock active created) = i"
  "product_name (sample_product i n c price stock active created) = n"
  "product_category_id (sample_product i n c price stock active created) = c"
  "product_price (sample_product i n c price stock active created) = price"
  "product_stock_quantity (sample_product i n c price stock active created) = stock"
  "product_is_active (sample_product i n c price stock active created) = active"
  "product_is_featured (sample_product i n c price stock active created) = False"
  "product_rating (sample_product i n c price stock active created) = 4"
  "product_created_at (sample_product i n c price stock active created) = created"
  by (simp_all add: sample_product_def)

lemmas sample_defs = sample_products_def laptop_def python_book_def tshirt_def mouse_def novel_def

lemmas view_defs = products_view_def apply_sort_def order_by_def column_le_def dict_get_def
  field_map_def apply_filters_def opt_filter_def truthy_str_def truthy_int_def
  price_to_python_zero rating_to_python_zero price_to_python_sample rating_to_python_sample

lemma sample_view_default:
  "products_view sample_products None None = Inr [novel, mouse, tshirt, python_book, laptop]"
  by (simp add: view_defs sample_defs sample_product_sel)

lemma sample_view_price_range:
  "products_view sample_products
     (Some (no_filters\<lparr>filter_price_min := Some 25, filter_price_max := Some 100\<rparr>))
     (Some \<lparr>sort_field = ''price'', sort_order = Some ''asc''\<rparr>) =
   Inr [mouse, python_book, novel]"
  by (simp add: view_defs no_filters_def sample_defs sample_product_sel)

lemma sample_view_price_bounds:
  "products_view sample_products
     (Some (no_filters\<lparr>filter_price_min := Some (29990000000001 / 1000000000000),
                        filter_price_max := Some (9999 / 100)\<rparr>))
     None =
   Inr [novel, mouse, python_book]"
  by (simp add: view_defs no_filters_def sample_defs sample_product_sel)

lemma sample_view_bogus_sort:
  "products_view sample_products None (Some \<lparr>sort_field = ''bogus'', sort_order = None\<rparr>) =
   Inr [laptop, python_book, tshirt, mouse, novel]"
  by (simp add: view_defs sample_defs sample_product_sel)

lemma sample_view_category_zero:
  "products_view sample_products (Some (no_filters\<lparr>filter_category_id := Some 0\<rparr>)) None =
   Inr [novel, mouse, tshirt, python_book, laptop]"
  by (simp add: view_defs no_filters_def sample_defs sample_product_sel)

lemma sample_view_inactive:
  "products_view sample_products (Some (no_filters\<lparr>filter_is_active := Some False\<rparr>)) None =
   Inr [tshirt]"
  by (simp add: view_defs no_filters_def sample_defs sample_product_sel)

lemma sample_view_falsy:
  "products_view (sample_products @ [sticker]) (Some falsy_filters) None = Inr [sticker]"
  by (simp add: view_defs falsy_filters_def sample_defs sticker_def sample_product_sel)

subsection \<open>The view of the connection\<close>

lemma sorted_insort_by:
  assumes total: "\<And>a b. le a b \<or> le b a" and trans: "\<And>a b c. le a b \<Longrightarrow> le b c \<Longrightarrow> le a c"
  shows "sorted_wrt le xs \<Longrightarrow> sorted_wrt le (insort_by le x xs)"
proof (induction xs)
  case Nil
  then show ?case by simp
next
  case (Cons y ys)
  show ?case
  proof (cases "le x y")
    case True
    then have "\<forall>z\<in>set ys. le x z" using Cons.prems trans by auto
    then show ?thesis using True Cons.prems by simp
  next
    case False
    then have "le y x" using total by blast
    then show ?thesis using False Cons by (auto simp: set_insort_by)
  qed
qed

lemma sorted_sort_by:
  assumes "\<And>a b. le a b \<or> le b a" and "\<And>a b c. le a b \<Longrightarrow> le b c \<Longrightarrow> le a c"
  shows "sorted_wrt le (sort_by le xs)"
  by (induction xs) (simp_all add: sorted_insort_by [OF assms])

lemma order_by_newest_eq:
  "order_by ''-created_at'' qs =
     Inr (sort_by (\<lambda>a b. product_created_at b \<le> product_created_at a) qs)"
  by (simp add: order_by_def column_le_def)

lemma connection_view_total:
  "\<exists>view. connection_view objects name category_id is_active = Inr view \<and>
     sorted_wrt (\<lambda>a b. product_created_at b \<le> product_created_at a) view \<and>
     (\<forall>p. p \<in> set view \<longleftrightarrow>
        p \<in> set objects \<and>
        (\<forall>v. name = Some v \<longrightarrow> icontains (product_name p) v) \<and>
        (\<forall>v. category_id = Some v \<and> v \<noteq> 0 \<longrightarrow> product_category_id p = v) \<and>
        (\<forall>v. is_active = Some v \<longrightarrow> product_is_active p = v))"
proof -
  let ?le = "\<lambda>a b. product_created_at b \<le> product_created_at a"
  let ?qs = "opt_filter is_active (\<lambda>v p. product_is_active p = v)
     (opt_filter (truthy_int category_id) (\<lambda>v p. product_category_id p = v)
       (opt_filter (truthy_str name) (\<lambda>v p. icontains (product_name p) v) objects))"
  have v: "connection_view objects name category_id is_active = Inr (sort_by ?le ?qs)"
    by (simp add: connection_view_def order_by_newest_eq)
  have s: "sorted_wrt ?le (sort_by ?le ?qs)"
    by (rule sorted_sort_by) auto
  have name: "\<And>p. (\<forall>x. truthy_str name = Some x \<longrightarrow> icontains (product_name p) x) \<longleftrightarrow>
      (\<forall>v. name = Some v \<longrightarrow> icontains (product_name p) v)"
    using icontains_empty by (auto simp: truthy_str_Some)
  have m: "\<forall>p. p \<in> set (sort_by ?le ?qs) \<longleftrightarrow>
        p \<in> set objects \<and>
        (\<forall>v. name = Some v \<longrightarrow> icontains (product_name p) v) \<and>
        (\<forall>v. category_id = Some v \<and> v \<noteq> 0 \<longrightarrow> product_category_id p = v) \<and>
        (\<forall>v. is_active = Some v \<longrightarrow> product_is_active p = v)"
    unfolding name [symmetric]
    by (simp add: set_sort_by set_opt_filter truthy_int_Some conj_ac)
  show ?thesis using v s m by blast
qed

lemma paginated_in_range:
  assumes "connection_view objects name category_id is_active = Inr view" and "0 \<le> first"
  shows "\<exists>c. resolve_products_paginated objects name category_id is_active first after = Inr c \<and>
     conn_edges c =
       map (\<lambda>item. \<lparr>edge_node = item, edge_cursor = ''cursor_'' @ str_int (product_id item)\<rparr>)
         (take (nat first) view) \<and>
     map edge_node (conn_edges c) = take (nat first) view \<and>
     conn_total_count c = int (length view) \<and>
     pi_has_next_page (conn_page_info c) = (first < int (length view)) \<and>
     \<not> pi_has_previous_page (conn_page_info c) \<and>
     pi_start_cursor (conn_page_info c) =
       (if conn_edges c = [] then None else Some (edge_cursor (hd (conn_edges c)))) \<and>
     pi_end_cursor (conn_page_info c) =
       (if conn_edges c = [] then None else Some (edge_cursor (last (conn_edges c))))"
  using assms
  by (simp add: resolve_products_paginated_def qs_slice_to_def Let_def comp_def)

lemma sample_connection_view:
  "connection_view sample_products None None None =
     Inr [novel, mouse, tshirt, python_book, laptop]"
  by (simp add: connection_view_def order_by_def column_le_def sample_defs sample_product_sel
      opt_filter_def truthy_str_def truthy_int_def)

lemma sample_connection:
  "resolve_products_paginated sample_products None None None 2 after =
   Inr \<lparr>conn_edges = [\<lparr>edge_node = novel, edge_cursor = ''cursor_5''\<rparr>,
                       \<lparr>edge_node = mouse, edge_cursor = ''cursor_4''\<rparr>],
        conn_page_info = \<lparr>pi_has_next_page = True, pi_has_previous_page = False,
                           pi_start_cursor = Some ''cursor_5'',
                           pi_end_cursor = Some ''cursor_4''\<rparr>,
        conn_total_count = 5\<rparr>"
  by (simp add: resolve_products_paginated_def connection_view_def order_by_def column_le_def
      sample_defs sample_product_sel opt_filter_def truthy_str_def truthy_int_def
      qs_slice_to_def str_int_def str_nat.simps)

subsection \<open>Decimal text of an identifier\<close>

lemma digit_char_inj:
  assumes "a < 10" and "b < 10" and "''0123456789'' ! a = ''0123456789'' ! b"
  shows "a = b"
proof -
  have "distinct ''0123456789''" by simp
  moreover have "a < length ''0123456789''" "b < length ''0123456789''" using assms by simp_all
  ultimately show ?thesis using assms(3) by (simp only: nth_eq_iff_index_eq)
qed

lemma digit_char_not_minus: "d < 10 \<Longrightarrow> ''0123456789'' ! d \<noteq> CHR ''-''"
proof -
  assume "d < 10"
  then have "''0123456789'' ! d \<in> set ''0123456789''" by (intro nth_mem) simp
  then show ?thesis by auto
qed

lemma str_nat_not_empty: "str_nat n \<noteq> []"
  by (subst str_nat.simps) simp

lemma str_nat_small: "n < 10 \<Longrightarrow> str_nat n = [''0123456789'' ! n]"
  by (subst str_nat.simps) simp

lemma str_nat_large:
  "\<not> n < 10 \<Longrightarrow> str_nat n = str_nat (n div 10) @ [''0123456789'' ! (n mod 10)]"
  by (subst str_nat.simps) simp

lemma hd_str_nat_not_minus: "hd (str_nat n) \<noteq> CHR ''-''"
proof (induction n rule: str_nat.induct)
  case (1 n)
  show ?case
  proof (cases "n < 10")
    case True
    then show ?thesis by (simp add: str_nat_small digit_char_not_minus)
  next
    case False
    then show ?thesis using 1 by (simp add: str_nat_large str_nat_not_empty)
  qed
qed

lemma str_nat_inj: "str_nat n = str_nat m \<Longrightarrow> n = m"
proof (induction n arbitrary: m rule: str_nat.induct)
  case (1 n)
  show ?case
  proof (cases "n < 10")
    case n: True
    show ?thesis
    proof (cases "m < 10")
      case True
      then show ?thesis using n 1(2) digit_char_inj [of n m] by (simp add: str_nat_small)
    next
      case False
      then show ?thesis using n 1(2) str_nat_not_empty [of "m div 10"]
        by (simp add: str_nat_small str_nat_large)
    qed
  next
    case n: False
    show ?thesis
    proof (cases "m < 10")
      case True
      then show ?thesis using n 1(2) str_nat_not_empty [of "n div 10"]
        by (simp add: str_nat_small str_nat_large)
    next
      case False
      then have e: "str_nat (n div 10) = str_nat (m div 10)"
        and d: "''0123456789'' ! (n mod 10) = ''0123456789'' ! (m mod 10)"
        using n 1(2) by (simp_all add: str_nat_large)
      have "n div 10 = m div 10" using 1(1) [OF n e] .
      moreover have "n mod 10 = m mod 10" using d digit_char_inj [of "n mod 10" "m mod 10"] by simp
      ultimately show ?thesis by (metis div_mult_mod_eq)
    qed
  qed
qed

lemma str_int_inj: "str_int i = str_int j \<Longrightarrow> i = j"
proof -
  assume e: "str_int i = str_int j"
  consider "i < 0" "j < 0" | "i < 0" "\<not> j < 0" | "\<not> i < 0" "j < 0" | "\<not> i < 0" "\<not> j < 0"
    by blast
  then show ?thesis
  proof cases
    case 1
    then have "nat (- i) = nat (- j)" using e str_nat_inj by (simp add: str_int_def)
    then show ?thesis using 1 by simp
  next
    case 2
    then have "hd (str_nat (nat j)) = CHR ''-''" using e by (simp add: str_int_def) (metis list.sel(1))
    then show ?thesis using hd_str_nat_not_minus by blast
  next
    case 3
    then have "hd (str_nat (nat i)) = CHR ''-''" using e by (simp add: str_int_def)
    then show ?thesis using hd_str_nat_not_minus by blast
  next
    case 4
    then have "nat i = nat j" using e str_nat_inj by (simp add: str_int_def)
    then show ?thesis using 4 by simp
  qed
qed

lemma connection_edges:
  assumes "resolve_products_paginated objects name category_id is_active first after = Inr c"
  shows "conn_edges c =
     map (\<lambda>item. \<lparr>edge_node = item, edge_cursor = ''cursor_'' @ str_int (product_id item)\<rparr>)
       (map edge_node (conn_edges c))"
  using assms
  by (auto simp: resolve_products_paginated_def Let_def comp_def split: sum.splits)

section \<open>The claims\<close>

subsection \<open>Offset pagination\<close>

text \<open>
  C2. For every filtered view and every request with \<open>page \<ge> 1\<close> and \<open>page_size \<ge> 1\<close>, the
  offset paginator returns \<open>total_pages = ceil(total_count / page_size)\<close> (0 when the view
  is empty), the items \<open>view[(page-1)*page_size : (page-1)*page_size + page_size]\<close> (none
  when the offset is at or past \<open>total_count\<close>), \<open>has_previous = (page > 1)\<close> and
  \<open>has_next = (page < total_pages)\<close>.
\<close>

theorem offset_paginator_page:
  assumes "1 \<le> page" and "1 \<le> page_size"
  shows "\<exists>view. products_view objects filters sort_input = Inr view \<and>
     resolve_products_filtered objects filters sort_input page page_size =
       Inr \<lparr>pg_items = take (nat page_size) (drop (nat ((page - 1) * page_size)) view),
            pg_total_count = int (length view),
            pg_page = page,
            pg_page_size = page_size,
            pg_total_pages = \<lceil>rat_of_int (int (length view)) / rat_of_int page_size\<rceil>,
            pg_has_next = (page < \<lceil>rat_of_int (int (length view)) / rat_of_int page_size\<rceil>),
            pg_has_previous = (page > 1)\<rparr> \<and>
     (length view = 0 \<longrightarrow> \<lceil>rat_of_int (int (length view)) / rat_of_int page_size\<rceil> = 0) \<and>
     (int (length view) \<le> (page - 1) * page_size \<longrightarrow>
        take (nat page_size) (drop (nat ((page - 1) * page_size)) view) = [])"
proof -
  obtain view where v: "products_view objects filters sort_input = Inr view"
    using products_view_total by blast
  have k: "0 < page_size" using assms by simp
  have "int (length view) \<le> (page - 1) * page_size \<Longrightarrow> drop (nat ((page - 1) * page_size)) view = []"
    by simp
  then show ?thesis
    using v resolve_in_range [OF v assms] total_pages_ceiling [OF k, of "int (length view)"]
    by auto
qed

theorem offset_paginator_page_witness:
  "(1::int) \<le> 2 \<and> (1::int) \<le> 2 \<and>
   resolve_products_filtered sample_products None None 2 2 =
     Inr \<lparr>pg_items = [tshirt, python_book], pg_total_count = 5, pg_page = 2, pg_page_size = 2,
          pg_total_pages = 3, pg_has_next = True, pg_has_previous = True\<rparr>"
  using offset_paginator_page [of 2 2 sample_products None None]
  by (auto simp: sample_view_default ceiling_rat_numeral)

text \<open>
  C7, as the code has it. The resolver uses \<open>page\<close> and \<open>page_size\<close> as they come: nothing
  clamps them and there is no largest page size. Whenever \<open>page \<ge> 1\<close> and \<open>page_size \<ge> 1\<close>
  the pagination is total: it returns a page that carries both numbers unchanged and the
  \<open>page_size\<close> rows of the view from the offset on (fewer at the end of the view).
\<close>

theorem offset_request_in_range_total:
  assumes "1 \<le> page" and "1 \<le> page_size"
  shows "\<exists>view r. products_view objects filters sort_input = Inr view \<and>
     resolve_products_filtered objects filters sort_input page page_size = Inr r \<and>
     pg_page r = page \<and> pg_page_size r = page_size \<and>
     pg_items r = take (nat page_size) (drop (nat ((page - 1) * page_size)) view) \<and>
     int (length (pg_items r)) \<le> page_size"
proof -
  obtain view where v: "products_view objects filters sort_input = Inr view"
    using products_view_total by blast
  show ?thesis using v resolve_in_range [OF v assms] assms by simp
qed

theorem offset_request_in_range_total_witness:
  "(1::int) \<le> 1 \<and> (1::int) \<le> 1000000 \<and>
   (\<exists>r. resolve_products_filtered sample_products None None 1 1000000 = Inr r \<and>
      pg_page r = 1 \<and> pg_page_size r = 1000000 \<and>
      pg_items r = [novel, mouse, tshirt, python_book, laptop] \<and>
      int (length (pg_items r)) \<le> 1000000)"
  using offset_request_in_range_total [of 1 1000000 sample_products None None]
  by (auto simp: sample_view_default)

text \<open>
  C7 as the specification states it fails: a page size of 0 is not clamped, and the
  division that computes \<open>total_pages\<close> raises.
\<close>

theorem page_size_zero_counterexample:
  "resolve_products_filtered sample_products None None 1 0 = Inl ZeroDivisionError"
  by (simp add: resolve_products_filtered_def sample_view_default)

text \<open>
  C8. With \<open>page_size \<ge> 1\<close>, a page number greater than \<open>total_pages\<close> is not an error: the
  resolver returns no items and \<open>has_next = false\<close>. With 5 records in the view,
  \<open>page_size = 2\<close> and \<open>page = 5\<close> it returns no items, \<open>has_next = false\<close> and
  \<open>has_previous = true\<close>.
\<close>

theorem page_beyond_range:
  assumes "products_view objects filters sort_input = Inr view"
  shows "(1 \<le> page_size \<and> \<lceil>rat_of_int (int (length view)) / rat_of_int page_size\<rceil> < page \<longrightarrow>
           (\<exists>r. resolve_products_filtered objects filters sort_input page page_size = Inr r \<and>
              pg_items r = [] \<and> \<not> pg_has_next r \<and> pg_has_previous r = (1 < page))) \<and>
         (length view = 5 \<longrightarrow>
           (\<exists>r. resolve_products_filtered objects filters sort_input 5 2 = Inr r \<and>
              pg_items r = [] \<and> \<not> pg_has_next r \<and> pg_has_previous r))"
proof (intro conjI impI)
  assume a: "1 \<le> page_size \<and> \<lceil>rat_of_int (int (length view)) / rat_of_int page_size\<rceil> < page"
  let ?n = "int (length view)"
  let ?tp = "(?n + page_size - 1) div page_size"
  have k: "0 < page_size" using a by simp
  have tp: "?tp = \<lceil>rat_of_int ?n / rat_of_int page_size\<rceil>" by (rule total_pages_ceiling [OF k])
  have "0 \<le> ?tp" using k by (simp add: pos_imp_zdiv_nonneg_iff)
  then have p: "1 \<le> page" using a tp by linarith
  have "?tp \<le> page - 1" using a tp by linarith
  then have "?tp * page_size \<le> (page - 1) * page_size" using k by (simp add: mult_right_mono)
  then have "?n \<le> (page - 1) * page_size" using total_pages_covers [OF k, of ?n] by linarith
  then have "drop (nat ((page - 1) * page_size)) view = []" by simp
  then show "\<exists>r. resolve_products_filtered objects filters sort_input page page_size = Inr r \<and>
              pg_items r = [] \<and> \<not> pg_has_next r \<and> pg_has_previous r = (1 < page)"
    using resolve_in_range [OF assms p] a tp by simp
next
  assume "length view = 5"
  then show "\<exists>r. resolve_products_filtered objects filters sort_input 5 2 = Inr r \<and>
              pg_items r = [] \<and> \<not> pg_has_next r \<and> pg_has_previous r"
    using resolve_in_range [OF assms, of 5 2] by simp
qed

theorem page_beyond_range_witness:
  "products_view sample_products None None = Inr [novel, mouse, tshirt, python_book, laptop] \<and>
   (1::int) \<le> 2 \<and> \<lceil>rat_of_int (int (length [novel, mouse, tshirt, python_book, laptop])) / rat_of_int 2\<rceil> < 5 \<and>
   length [novel, mouse, tshirt, python_book, laptop] = 5 \<and>
   (\<exists>r. resolve_products_filtered sample_products None None 5 2 = Inr r \<and>
      pg_items r = [] \<and> \<not> pg_has_next r \<and> pg_has_previous r)"
  using page_beyond_range [OF sample_view_default, of 2 5] by (simp add: sample_view_default)

subsection \<open>Filtering\<close>

text \<open>
  C3, as the code has it. A product is in the filtered view if and only if it is in the
  table and satisfies every predicate that is supplied, where a \<open>category_id\<close> of 0 counts
  as not supplied and a float bound counts as the decimal its column makes of it (the
  float rounded to 10 significant digits for a price, to 3 for a rating): the name is
  contained without regard to case, category and the two flags are equal to the value
  given, price lies between \<open>price_min\<close> and \<open>price_max\<close>, both bounds included, rating is
  at least \<open>rating_min\<close>, and \<open>has_stock\<close> asks for a positive stock when true and a
  stock of 0 when false. With no filter input the view has
  the rows of the table. For the products priced 19.99, 29.99, 49.99, 99.99 and 999.99,
  \<open>price_min = 25\<close>, \<open>price_max = 100\<close> and a sort by ascending price give the products
  priced 29.99, 49.99, 99.99 in this order.
\<close>

theorem filtered_view_membership:
  "(\<exists>view. products_view objects (Some f) sort_input = Inr view \<and>
      (\<forall>p. p \<in> set view \<longleftrightarrow>
         p \<in> set objects \<and>
         (\<forall>v. filter_name f = Some v \<longrightarrow> icontains (product_name p) v) \<and>
         (\<forall>v. filter_category_id f = Some v \<and> v \<noteq> 0 \<longrightarrow> product_category_id p = v) \<and>
         (\<forall>v. filter_is_active f = Some v \<longrightarrow> product_is_active p = v) \<and>
         (\<forall>v. filter_is_featured f = Some v \<longrightarrow> product_is_featured p = v) \<and>
         (\<forall>v. filter_price_min f = Some v \<longrightarrow> price_to_python v \<le> product_price p) \<and>
         (\<forall>v. filter_price_max f = Some v \<longrightarrow> product_price p \<le> price_to_python v) \<and>
         (\<forall>v. filter_rating_min f = Some v \<longrightarrow> rating_to_python v \<le> product_rating p) \<and>
         (filter_has_stock f = Some True \<longrightarrow> 0 < product_stock_quantity p) \<and>
         (filter_has_stock f = Some False \<longrightarrow> product_stock_quantity p = 0))) \<and>
   (\<exists>view. products_view objects None sort_input = Inr view \<and> set view = set objects) \<and>
   (\<exists>r. resolve_products_filtered sample_products
           (Some (no_filters\<lparr>filter_price_min := Some 25, filter_price_max := Some 100\<rparr>))
           (Some \<lparr>sort_field = ''price'', sort_order = Some ''asc''\<rparr>) 1 10 = Inr r \<and>
         map product_price (pg_items r) = [2999 / 100, 4999 / 100, 9999 / 100] \<and>
         pg_total_count r = 3) \<and>
   map product_price sample_products = [99999 / 100, 4999 / 100, 1999 / 100, 2999 / 100, 9999 / 100]"
proof (intro conjI)
  obtain view where v: "products_view objects (Some f) sort_input = Inr view"
    and s: "set view = set (apply_filters f objects)"
    using products_view_total [of objects "Some f" sort_input] by auto
  show "\<exists>view. products_view objects (Some f) sort_input = Inr view \<and>
      (\<forall>p. p \<in> set view \<longleftrightarrow>
         p \<in> set objects \<and>
         (\<forall>v. filter_name f = Some v \<longrightarrow> icontains (product_name p) v) \<and>
         (\<forall>v. filter_category_id f = Some v \<and> v \<noteq> 0 \<longrightarrow> product_category_id p = v) \<and>
         (\<forall>v. filter_is_active f = Some v \<longrightarrow> product_is_active p = v) \<and>
         (\<forall>v. filter_is_featured f = Some v \<longrightarrow> product_is_featured p = v) \<and>
         (\<forall>v. filter_price_min f = Some v \<longrightarrow> price_to_python v \<le> product_price p) \<and>
         (\<forall>v. filter_price_max f = Some v \<longrightarrow> product_price p \<le> price_to_python v) \<and>
         (\<forall>v. filter_rating_min f = Some v \<longrightarrow> rating_to_python v \<le> product_rating p) \<and>
         (filter_has_stock f = Some True \<longrightarrow> 0 < product_stock_quantity p) \<and>
         (filter_has_stock f = Some False \<longrightarrow> product_stock_quantity p = 0))"
    using v s apply_filters_iff [of _ f objects] by blast
next
  show "\<exists>view. products_view objects None sort_input = Inr view \<and> set view = set objects"
    using products_view_total [of objects None sort_input] by auto
next
  show "\<exists>r. resolve_products_filtered sample_products
           (Some (no_filters\<lparr>filter_price_min := Some 25, filter_price_max := Some 100\<rparr>))
           (Some \<lparr>sort_field = ''price'', sort_order = Some ''asc''\<rparr>) 1 10 = Inr r \<and>
         map product_price (pg_items r) = [2999 / 100, 4999 / 100, 9999 / 100] \<and>
         pg_total_count r = 3"
    using resolve_first_page [OF sample_view_price_range]
    by (simp add: sample_defs sample_product_sel)
next
  show "map product_price sample_products =
      [99999 / 100, 4999 / 100, 1999 / 100, 2999 / 100, 9999 / 100]"
    by (simp add: sample_defs sample_product_sel)
qed

theorem filtered_view_membership_witness:
  "products_view sample_products
     (Some (no_filters\<lparr>filter_price_min := Some (29990000000001 / 1000000000000),
                        filter_price_max := Some (9999 / 100)\<rparr>))
     None = Inr [novel, mouse, python_book] \<and>
   price_to_python (29990000000001 / 1000000000000) = 2999 / 100 \<and>
   price_to_python (9999 / 100) = 9999 / 100 \<and>
   mouse \<in> set sample_products \<and> product_price mouse = 2999 / 100 \<and>
   novel \<in> set sample_products \<and> product_price novel = 9999 / 100 \<and>
   (mouse \<in> set [novel, mouse, python_book] \<longleftrightarrow>
      2999 / 100 \<le> product_price mouse \<and> product_price mouse \<le> 9999 / 100) \<and>
   (laptop \<in> set [novel, mouse, python_book] \<longleftrightarrow>
      2999 / 100 \<le> product_price laptop \<and> product_price laptop \<le> 9999 / 100)"
proof -
  let ?f = "no_filters\<lparr>filter_price_min := Some (29990000000001 / 1000000000000),
                       filter_price_max := Some (9999 / 100)\<rparr>"
  obtain view where v: "products_view sample_products (Some ?f) None = Inr view"
    and m: "\<forall>p. p \<in> set view \<longleftrightarrow>
         p \<in> set sample_products \<and>
         (\<forall>v. filter_name ?f = Some v \<longrightarrow> icontains (product_name p) v) \<and>
         (\<forall>v. filter_category_id ?f = Some v \<and> v \<noteq> 0 \<longrightarrow> product_category_id p = v) \<and>
         (\<forall>v. filter_is_active ?f = Some v \<longrightarrow> product_is_active p = v) \<and>
         (\<forall>v. filter_is_featured ?f = Some v \<longrightarrow> product_is_featured p = v) \<and>
         (\<forall>v. filter_price_min ?f = Some v \<longrightarrow> price_to_python v \<le> product_price p) \<and>
         (\<forall>v. filter_price_max ?f = Some v \<longrightarrow> product_price p \<le> price_to_python v) \<and>
         (\<forall>v. filter_rating_min ?f = Some v \<longrightarrow> rating_to_python v \<le> product_rating p) \<and>
         (filter_has_stock ?f = Some True \<longrightarrow> 0 < product_stock_quantity p) \<and>
         (filter_has_stock ?f = Some False \<longrightarrow> product_stock_quantity p = 0)"
    using filtered_view_membership [of sample_products ?f None] by blast
  have view: "view = [novel, mouse, python_book]"
    using v by (simp add: sample_view_price_bounds)
  have in_table: "mouse \<in> set sample_products" "novel \<in> set sample_products"
    "laptop \<in> set sample_products"
    by (simp_all add: sample_products_def)
  have f: "filter_name ?f = None" "filter_category_id ?f = None" "filter_is_active ?f = None"
    "filter_is_featured ?f = None" "filter_rating_min ?f = None" "filter_has_stock ?f = None"
    "filter_price_min ?f = Some (29990000000001 / 1000000000000)"
    "filter_price_max ?f = Some (9999 / 100)"
    by (simp_all add: no_filters_def)
  have iff: "p \<in> set view \<longleftrightarrow>
      p \<in> set sample_products \<and> 2999 / 100 \<le> product_price p \<and> product_price p \<le> 9999 / 100"
    for p
    using m [rule_format, of p] unfolding f
    by (simp add: price_to_python_sample del: eq_divide_eq_numeral1 divide_eq_eq_numeral1)
  have "mouse \<in> set view \<longleftrightarrow>
      2999 / 100 \<le> product_price mouse \<and> product_price mouse \<le> 9999 / 100"
    using iff [of mouse] in_table by simp
  moreover have "laptop \<in> set view \<longleftrightarrow>
      2999 / 100 \<le> product_price laptop \<and> product_price laptop \<le> 9999 / 100"
    using iff [of laptop] in_table by simp
  moreover have "product_price mouse = 2999 / 100" "product_price novel = 9999 / 100"
    by (simp_all add: sample_defs sample_product_sel)
  ultimately show ?thesis
    using in_table view sample_view_price_bounds price_to_python_sample by simp
qed

text \<open>
  C3 as the specification states it fails. \<open>category_id = 0\<close> is a supplied equality
  predicate that no product of the sample satisfies, and every product is returned. And
  \<open>price_min = 29.990000000001\<close> returns the mouse, priced 29.99, below the bound supplied.
\<close>

theorem category_zero_counterexample:
  "resolve_products_filtered sample_products
     (Some (no_filters\<lparr>filter_category_id := Some 0\<rparr>)) None 1 10 =
   Inr \<lparr>pg_items = [novel, mouse, tshirt, python_book, laptop], pg_total_count = 5,
        pg_page = 1, pg_page_size = 10, pg_total_pages = 1, pg_has_next = False,
        pg_has_previous = False\<rparr> \<and>
   map product_category_id [novel, mouse, tshirt, python_book, laptop] = [2, 1, 3, 2, 1] \<and>
   resolve_products_filtered sample_products
     (Some (no_filters\<lparr>filter_price_min := Some (29990000000001 / 1000000000000),
                        filter_price_max := Some (9999 / 100)\<rparr>)) None 1 10 =
   Inr \<lparr>pg_items = [novel, mouse, python_book], pg_total_count = 3,
        pg_page = 1, pg_page_size = 10, pg_total_pages = 1, pg_has_next = False,
        pg_has_previous = False\<rparr> \<and>
   product_price mouse < 29990000000001 / 1000000000000"
  using resolve_first_page [OF sample_view_category_zero]
    resolve_first_page [OF sample_view_price_bounds]
  by (simp add: sample_defs sample_product_sel)

text \<open>
  C10. In the filtered products query, \<open>name = ""\<close> and \<open>category_id = 0\<close> are treated as
  absent: each gives the result of the same request without that filter, and the two
  alone give the unfiltered result. \<open>is_active\<close>, \<open>is_featured\<close> and \<open>has_stock\<close> given as
  false, and the price and rating bounds given as 0, are applied: the query pages through
  a view whose rows are exactly those rows of the same request without that filter that
  are inactive, not featured, out of stock; priced at least 0, at most 0; rated at least 0.
\<close>

theorem falsy_filter_values:
  "resolve_products_filtered objects (Some (f\<lparr>filter_name := Some []\<rparr>)) sort_input page page_size =
     resolve_products_filtered objects (Some (f\<lparr>filter_name := None\<rparr>)) sort_input page page_size \<and>
   resolve_products_filtered objects (Some (f\<lparr>filter_category_id := Some 0\<rparr>)) sort_input page page_size =
     resolve_products_filtered objects (Some (f\<lparr>filter_category_id := None\<rparr>)) sort_input page page_size \<and>
   resolve_products_filtered objects
       (Some (no_filters\<lparr>filter_name := Some [], filter_category_id := Some 0\<rparr>))
       sort_input page page_size =
     resolve_products_filtered objects None sort_input page page_size \<and>
   (1 \<le> page \<and> 1 \<le> page_size \<longrightarrow>
      (\<exists>view.
         products_view objects (Some f) sort_input = Inr view \<and>
         resolve_products_filtered objects (Some f) sort_input page page_size =
           Inr \<lparr>pg_items = take (nat page_size) (drop (nat ((page - 1) * page_size)) view),
                pg_total_count = int (length view), pg_page = page, pg_page_size = page_size,
                pg_total_pages = (int (length view) + page_size - 1) div page_size,
                pg_has_next = (page < (int (length view) + page_size - 1) div page_size),
                pg_has_previous = (1 < page)\<rparr> \<and>
         (filter_is_active f = Some False \<longrightarrow>
            (\<exists>rest. products_view objects (Some (f\<lparr>filter_is_active := None\<rparr>)) sort_input =
                 Inr rest \<and>
               set view = {p \<in> set rest. \<not> product_is_active p})) \<and>
         (filter_is_featured f = Some False \<longrightarrow>
            (\<exists>rest. products_view objects (Some (f\<lparr>filter_is_featured := None\<rparr>)) sort_input =
                 Inr rest \<and>
               set view = {p \<in> set rest. \<not> product_is_featured p})) \<and>
         (filter_has_stock f = Some False \<longrightarrow>
            (\<exists>rest. products_view objects (Some (f\<lparr>filter_has_stock := None\<rparr>)) sort_input =
                 Inr rest \<and>
               set view = {p \<in> set rest. product_stock_quantity p = 0})) \<and>
         (filter_price_min f = Some 0 \<longrightarrow>
            (\<exists>rest. products_view objects (Some (f\<lparr>filter_price_min := None\<rparr>)) sort_input =
                 Inr rest \<and>
               set view = {p \<in> set rest. 0 \<le> product_price p})) \<and>
         (filter_price_max f = Some 0 \<longrightarrow>
            (\<exists>rest. products_view objects (Some (f\<lparr>filter_price_max := None\<rparr>)) sort_input =
                 Inr rest \<and>
               set view = {p \<in> set rest. product_price p \<le> 0})) \<and>
         (filter_rating_min f = Some 0 \<longrightarrow>
            (\<exists>rest. products_view objects (Some (f\<lparr>filter_rating_min := None\<rparr>)) sort_input =
                 Inr rest \<and>
               set view = {p \<in> set rest. 0 \<le> product_rating p}))))"
proof (intro conjI impI)
  show "resolve_products_filtered objects (Some (f\<lparr>filter_name := Some []\<rparr>)) sort_input page page_size =
     resolve_products_filtered objects (Some (f\<lparr>filter_name := None\<rparr>)) sort_input page page_size"
    by (simp add: resolve_products_filtered_def products_view_name_empty)
  show "resolve_products_filtered objects (Some (f\<lparr>filter_category_id := Some 0\<rparr>)) sort_input page page_size =
     resolve_products_filtered objects (Some (f\<lparr>filter_category_id := None\<rparr>)) sort_input page page_size"
    by (simp add: resolve_products_filtered_def products_view_category_zero)
  show "resolve_products_filtered objects
       (Some (no_filters\<lparr>filter_name := Some [], filter_category_id := Some 0\<rparr>))
       sort_input page page_size =
     resolve_products_filtered objects None sort_input page page_size"
    by (simp add: resolve_products_filtered_def products_view_both_falsy)
next
  assume r: "1 \<le> page \<and> 1 \<le> page_size"
  obtain view where v: "products_view objects (Some f) sort_input = Inr view"
    using products_view_total by blast
  note page = resolve_in_range [OF v conjunct1 [OF r] conjunct2 [OF r]]
  have a: "filter_is_active f = Some False \<longrightarrow>
      (\<exists>rest. products_view objects (Some (f\<lparr>filter_is_active := None\<rparr>)) sort_input = Inr rest \<and>
         set view = {p \<in> set rest. \<not> product_is_active p})"
    using view_restricted [OF applied_is_active v] by blast
  have b: "filter_is_featured f = Some False \<longrightarrow>
      (\<exists>rest. products_view objects (Some (f\<lparr>filter_is_featured := None\<rparr>)) sort_input = Inr rest \<and>
         set view = {p \<in> set rest. \<not> product_is_featured p})"
    using view_restricted [OF applied_is_featured v] by blast
  have c: "filter_has_stock f = Some False \<longrightarrow>
      (\<exists>rest. products_view objects (Some (f\<lparr>filter_has_stock := None\<rparr>)) sort_input = Inr rest \<and>
         set view = {p \<in> set rest. product_stock_quantity p = 0})"
    using view_restricted [OF applied_has_stock v] by blast
  have d: "filter_price_min f = Some 0 \<longrightarrow>
      (\<exists>rest. products_view objects (Some (f\<lparr>filter_price_min := None\<rparr>)) sort_input = Inr rest \<and>
         set view = {p \<in> set rest. 0 \<le> product_price p})"
    using view_restricted [OF applied_price_min v] by blast
  have e: "filter_price_max f = Some 0 \<longrightarrow>
      (\<exists>rest. products_view objects (Some (f\<lparr>filter_price_max := None\<rparr>)) sort_input = Inr rest \<and>
         set view = {p \<in> set rest. product_price p \<le> 0})"
    using view_restricted [OF applied_price_max v] by blast
  have g: "filter_rating_min f = Some 0 \<longrightarrow>
      (\<exists>rest. products_view objects (Some (f\<lparr>filter_rating_min := None\<rparr>)) sort_input = Inr rest \<and>
         set view = {p \<in> set rest. 0 \<le> product_rating p})"
    using view_restricted [OF applied_rating_min v] by blast
  show "\<exists>view.
         products_view objects (Some f) sort_input = Inr view \<and>
         resolve_products_filtered objects (Some f) sort_input page page_size =
           Inr \<lparr>pg_items = take (nat page_size) (drop (nat ((page - 1) * page_size)) view),
                pg_total_count = int (length view), pg_page = page, pg_page_size = page_size,
                pg_total_pages = (int (length view) + page_size - 1) div page_size,
                pg_has_next = (page < (int (length view) + page_size - 1) div page_size),
                pg_has_previous = (1 < page)\<rparr> \<and>
         (filter_is_active f = Some False \<longrightarrow>
            (\<exists>rest. products_view objects (Some (f\<lparr>filter_is_active := None\<rparr>)) sort_input =
                 Inr rest \<and>
               set view = {p \<in> set rest. \<not> product_is_active p})) \<and>
         (filter_is_featured f = Some False \<longrightarrow>
            (\<exists>rest. products_view objects (Some (f\<lparr>filter_is_featured := None\<rparr>)) sort_input =
                 Inr rest \<and>
               set view = {p \<in> set rest. \<not> product_is_featured p})) \<and>
         (filter_has_stock f = Some False \<longrightarrow>
            (\<exists>rest. products_view objects (Some (f\<lparr>filter_has_stock := None\<rparr>)) sort_input =
                 Inr rest \<and>
               set view = {p \<in> set rest. product_stock_quantity p = 0})) \<and>
         (filter_price_min f = Some 0 \<longrightarrow>
            (\<exists>rest. products_view objects (Some (f\<lparr>filter_price_min := None\<rparr>)) sort_input =
                 Inr rest \<and>
               set view = {p \<in> set rest. 0 \<le> product_price p})) \<and>
         (filter_price_max f = Some 0 \<longrightarrow>
            (\<exists>rest. products_view objects (Some (f\<lparr>filter_price_max := None\<rparr>)) sort_input =
                 Inr rest \<and>
               set view = {p \<in> set rest. product_price p \<le> 0})) \<and>
         (filter_rating_min f = Some 0 \<longrightarrow>
            (\<exists>rest. products_view objects (Some (f\<lparr>filter_rating_min := None\<rparr>)) sort_input =
                 Inr rest \<and>
               set view = {p \<in> set rest. 0 \<le> product_rating p}))"
    by (intro exI [of _ view] conjI v page a b c d e g)
qed

theorem falsy_filter_values_witness:
  "(1::int) \<le> 1 \<and> (1::int) \<le> 10 \<and>
   filter_is_active falsy_filters = Some False \<and> filter_is_featured falsy_filters = Some False \<and>
   filter_has_stock falsy_filters = Some False \<and> filter_price_min falsy_filters = Some 0 \<and>
   filter_price_max falsy_filters = Some 0 \<and> filter_rating_min falsy_filters = Some 0 \<and>
   resolve_products_filtered (sample_products @ [sticker]) (Some falsy_filters) None 1 10 =
     Inr \<lparr>pg_items = [sticker], pg_total_count = 1, pg_page = 1, pg_page_size = 10,
          pg_total_pages = 1, pg_has_next = False, pg_has_previous = False\<rparr> \<and>
   product_name sticker = ''Sticker'' \<and> product_category_id sticker = 3 \<and>
   resolve_products_filtered sample_products
       (Some (no_filters\<lparr>filter_is_active := Some False\<rparr>)) None 1 10 =
     Inr \<lparr>pg_items = [tshirt], pg_total_count = 1, pg_page = 1, pg_page_size = 10,
          pg_total_pages = 1, pg_has_next = False, pg_has_previous = False\<rparr> \<and>
   map product_is_active sample_products = [True, True, False, True, True]"
proof -
  have r: "(1::int) \<le> 1 \<and> (1::int) \<le> 10" by simp
  have f: "filter_is_active falsy_filters = Some False" "filter_is_featured falsy_filters = Some False"
    "filter_has_stock falsy_filters = Some False" "filter_price_min falsy_filters = Some 0"
    "filter_price_max falsy_filters = Some 0" "filter_rating_min falsy_filters = Some 0"
    by (simp_all add: falsy_filters_def)
  obtain view where "products_view (sample_products @ [sticker]) (Some falsy_filters) None = Inr view"
    and p: "resolve_products_filtered (sample_products @ [sticker]) (Some falsy_filters) None 1 10 =
           Inr \<lparr>pg_items = take (nat 10) (drop (nat ((1 - 1) * 10)) view),
                pg_total_count = int (length view), pg_page = 1, pg_page_size = 10,
                pg_total_pages = (int (length view) + 10 - 1) div 10,
                pg_has_next = (1 < (int (length view) + 10 - 1) div 10),
                pg_has_previous = (1 < (1::int))\<rparr>"
    using falsy_filter_values [of "sample_products @ [sticker]" falsy_filters None 1 10] r
    by blast
  then have "view = [sticker]" by (simp add: sample_view_falsy)
  with p have a: "resolve_products_filtered (sample_products @ [sticker]) (Some falsy_filters)
       None 1 10 =
     Inr \<lparr>pg_items = [sticker], pg_total_count = 1, pg_page = 1, pg_page_size = 10,
          pg_total_pages = 1, pg_has_next = False, pg_has_previous = False\<rparr>"
    by simp
  let ?g = "no_filters\<lparr>filter_is_active := Some False\<rparr>"
  obtain view' where "products_view sample_products (Some ?g) None = Inr view'"
    and q: "resolve_products_filtered sample_products (Some ?g) None 1 10 =
           Inr \<lparr>pg_items = take (nat 10) (drop (nat ((1 - 1) * 10)) view'),
                pg_total_count = int (length view'), pg_page = 1, pg_page_size = 10,
                pg_total_pages = (int (length view') + 10 - 1) div 10,
                pg_has_next = (1 < (int (length view') + 10 - 1) div 10),
                pg_has_previous = (1 < (1::int))\<rparr>"
    using falsy_filter_values [of sample_products ?g None 1 10] r by blast
  then have "view' = [tshirt]" by (simp add: sample_view_inactive)
  with q have b: "resolve_products_filtered sample_products (Some ?g) None 1 10 =
     Inr \<lparr>pg_items = [tshirt], pg_total_count = 1, pg_page = 1, pg_page_size = 10,
          pg_total_pages = 1, pg_has_next = False, pg_has_previous = False\<rparr>"
    by simp
  have c: "product_name sticker = ''Sticker''" "product_category_id sticker = 3"
    "map product_is_active sample_products = [True, True, False, True, True]"
    by (simp_all add: sticker_def sample_defs sample_product_sel)
  show ?thesis by (intro conjI f a b c) simp_all
qed

subsection \<open>Sorting\<close>

text \<open>
  C4, as the code has it. A sort field outside the allow-list \<open>name\<close>, \<open>price\<close>, \<open>rating\<close>,
  \<open>created_at\<close> is no error: the sort stage succeeds and the query gives the result it gives
  for the field \<open>created_at\<close> with the same direction.
\<close>

theorem unknown_sort_field_falls_back:
  assumes "sort_field s \<notin> {''name'', ''price'', ''rating'', ''created_at''}"
  shows "resolve_products_filtered objects filters (Some s) page page_size =
           resolve_products_filtered objects filters (Some (s\<lparr>sort_field := ''created_at''\<rparr>))
             page page_size \<and>
         (\<exists>view. products_view objects filters (Some s) = Inr view) \<and>
         (1 \<le> page \<and> 1 \<le> page_size \<longrightarrow>
            (\<exists>r. resolve_products_filtered objects filters (Some s) page page_size = Inr r))"
proof (intro conjI impI)
  show "resolve_products_filtered objects filters (Some s) page page_size =
           resolve_products_filtered objects filters (Some (s\<lparr>sort_field := ''created_at''\<rparr>))
             page page_size"
    using apply_sort_unknown_field [OF assms]
    by (simp add: resolve_products_filtered_def products_view_def)
  show "\<exists>view. products_view objects filters (Some s) = Inr view"
    using products_view_total by blast
next
  assume "1 \<le> page \<and> 1 \<le> page_size"
  then show "\<exists>r. resolve_products_filtered objects filters (Some s) page page_size = Inr r"
    using products_view_total [of objects filters "Some s"] resolve_in_range [of objects filters "Some s" _ page page_size] by blast
qed

theorem unknown_sort_field_falls_back_witness:
  "sort_field \<lparr>sort_field = ''bogus'', sort_order = Some ''desc''\<rparr>
     \<notin> {''name'', ''price'', ''rating'', ''created_at''} \<and>
   (1::int) \<le> 1 \<and> (1::int) \<le> 10 \<and>
   resolve_products_filtered sample_products None
       (Some \<lparr>sort_field = ''bogus'', sort_order = Some ''desc''\<rparr>) 1 10 =
     resolve_products_filtered sample_products None
       (Some \<lparr>sort_field = ''created_at'', sort_order = Some ''desc''\<rparr>) 1 10 \<and>
   (\<exists>r. resolve_products_filtered sample_products None
       (Some \<lparr>sort_field = ''bogus'', sort_order = Some ''desc''\<rparr>) 1 10 = Inr r)"
proof -
  let ?s = "\<lparr>sort_field = ''bogus'', sort_order = Some ''desc''\<rparr>"
  have h: "sort_field ?s \<notin> {''name'', ''price'', ''rating'', ''created_at''}" by simp
  note t = unknown_sort_field_falls_back [OF h, of sample_products None 1 10]
  have a: "resolve_products_filtered sample_products None (Some ?s) 1 10 =
     resolve_products_filtered sample_products None
       (Some \<lparr>sort_field = ''created_at'', sort_order = Some ''desc''\<rparr>) 1 10"
    using t by simp
  have "(1::int) \<le> 1 \<and> (1::int) \<le> 10" by simp
  with t have b: "\<exists>r. resolve_products_filtered sample_products None (Some ?s) 1 10 = Inr r"
    by blast
  show ?thesis by (intro conjI h a b) simp_all
qed

text \<open>
  C4 as the specification states it fails: the field \<open>bogus\<close> is not in the allow-list,
  and the query returns the products in ascending order of creation.
\<close>

theorem bogus_sort_field_counterexample:
  "resolve_products_filtered sample_products None
     (Some \<lparr>sort_field = ''bogus'', sort_order = None\<rparr>) 1 10 =
   Inr \<lparr>pg_items = [laptop, python_book, tshirt, mouse, novel], pg_total_count = 5,
        pg_page = 1, pg_page_size = 10, pg_total_pages = 1, pg_has_next = False,
        pg_has_previous = False\<rparr>"
  using resolve_first_page [OF sample_view_bogus_sort] by simp

subsection \<open>The cursor connection\<close>

text \<open>
  C1, as the code has it. The cursor resolver does not read \<open>after\<close>: whatever token is
  supplied, well formed or not, the result is the one for no cursor at all. For
  \<open>first \<ge> 0\<close> it is a connection, never an error, that starts at the first record: its
  nodes are the first \<open>first\<close> rows of the filtered view, newest first, each with the
  cursor of its identifier, \<open>total_count\<close> is the size of that view, \<open>has_next_page\<close> tells
  whether the view has more than \<open>first\<close> rows, \<open>has_previous_page\<close> is false, and the start
  and end cursors are those of the first and last edge.
\<close>

theorem after_cursor_ignored:
  "resolve_products_paginated objects name category_id is_active first after =
     resolve_products_paginated objects name category_id is_active first None \<and>
   (0 \<le> first \<longrightarrow>
      (\<exists>view c.
         connection_view objects name category_id is_active = Inr view \<and>
         resolve_products_paginated objects name category_id is_active first after = Inr c \<and>
         conn_edges c =
           map (\<lambda>item. \<lparr>edge_node = item,
                  edge_cursor = ''cursor_'' @ str_int (product_id item)\<rparr>)
             (take (nat first) view) \<and>
         map edge_node (conn_edges c) = take (nat first) view \<and>
         conn_total_count c = int (length view) \<and>
         pi_has_next_page (conn_page_info c) = (first < int (length view)) \<and>
         \<not> pi_has_previous_page (conn_page_info c) \<and>
         pi_start_cursor (conn_page_info c) =
           (if conn_edges c = [] then None else Some (edge_cursor (hd (conn_edges c)))) \<and>
         pi_end_cursor (conn_page_info c) =
           (if conn_edges c = [] then None else Some (edge_cursor (last (conn_edges c)))) \<and>
         sorted_wrt (\<lambda>a b. product_created_at b \<le> product_created_at a) view \<and>
         (\<forall>p. p \<in> set view \<longleftrightarrow>
            p \<in> set objects \<and>
            (\<forall>v. name = Some v \<longrightarrow> icontains (product_name p) v) \<and>
            (\<forall>v. category_id = Some v \<and> v \<noteq> 0 \<longrightarrow> product_category_id p = v) \<and>
            (\<forall>v. is_active = Some v \<longrightarrow> product_is_active p = v))))"
proof (intro conjI impI)
  show "resolve_products_paginated objects name category_id is_active first after =
     resolve_products_paginated objects name category_id is_active first None"
    by (simp add: resolve_products_paginated_def)
next
  assume f: "0 \<le> first"
  obtain view where v: "connection_view objects name category_id is_active = Inr view"
    and s: "sorted_wrt (\<lambda>a b. product_created_at b \<le> product_created_at a) view"
    and m: "\<forall>p. p \<in> set view \<longleftrightarrow>
            p \<in> set objects \<and>
            (\<forall>v. name = Some v \<longrightarrow> icontains (product_name p) v) \<and>
            (\<forall>v. category_id = Some v \<and> v \<noteq> 0 \<longrightarrow> product_category_id p = v) \<and>
            (\<forall>v. is_active = Some v \<longrightarrow> product_is_active p = v)"
    using connection_view_total [of objects name category_id is_active] by blast
  obtain c where "resolve_products_paginated objects name category_id is_active first after = Inr c"
    "conn_edges c =
       map (\<lambda>item. \<lparr>edge_node = item, edge_cursor = ''cursor_'' @ str_int (product_id item)\<rparr>)
         (take (nat first) view)"
    "map edge_node (conn_edges c) = take (nat first) view"
    "conn_total_count c = int (length view)"
    "pi_has_next_page (conn_page_info c) = (first < int (length view))"
    "\<not> pi_has_previous_page (conn_page_info c)"
    "pi_start_cursor (conn_page_info c) =
       (if conn_edges c = [] then None else Some (edge_cursor (hd (conn_edges c))))"
    "pi_end_cursor (conn_page_info c) =
       (if conn_edges c = [] then None else Some (edge_cursor (last (conn_edges c))))"
    using paginated_in_range [OF v f, of after] by blast
  then show "\<exists>view c.
         connection_view objects name category_id is_active = Inr view \<and>
         resolve_products_paginated objects name category_id is_active first after = Inr c \<and>
         conn_edges c =
           map (\<lambda>item. \<lparr>edge_node = item,
                  edge_cursor = ''cursor_'' @ str_int (product_id item)\<rparr>)
             (take (nat first) view) \<and>
         map edge_node (conn_edges c) = take (nat first) view \<and>
         conn_total_count c = int (length view) \<and>
         pi_has_next_page (conn_page_info c) = (first < int (length view)) \<and>
         \<not> pi_has_previous_page (conn_page_info c) \<and>
         pi_start_cursor (conn_page_info c) =
           (if conn_edges c = [] then None else Some (edge_cursor (hd (conn_edges c)))) \<and>
         pi_end_cursor (conn_page_info c) =
           (if conn_edges c = [] then None else Some (edge_cursor (last (conn_edges c)))) \<and>
         sorted_wrt (\<lambda>a b. product_created_at b \<le> product_created_at a) view \<and>
         (\<forall>p. p \<in> set view \<longleftrightarrow>
            p \<in> set objects \<and>
            (\<forall>v. name = Some v \<longrightarrow> icontains (product_name p) v) \<and>
            (\<forall>v. category_id = Some v \<and> v \<noteq> 0 \<longrightarrow> product_category_id p = v) \<and>
            (\<forall>v. is_active = Some v \<longrightarrow> product_is_active p = v))"
    using v s m by blast
qed

theorem after_cursor_ignored_witness:
  "(0::int) \<le> 2 \<and>
   connection_view sample_products None None None =
     Inr [novel, mouse, tshirt, python_book, laptop] \<and>
   resolve_products_paginated sample_products None None None 2 (Some ''cursor_4'') =
     resolve_products_paginated sample_products None None None 2 None \<and>
   (\<exists>c. resolve_products_paginated sample_products None None None 2 (Some ''cursor_4'') = Inr c \<and>
      map edge_node (conn_edges c) = [novel, mouse] \<and>
      conn_total_count c = 5 \<and>
      pi_has_next_page (conn_page_info c) \<and>
      \<not> pi_has_previous_page (conn_page_info c))"
proof -
  note t = after_cursor_ignored [of sample_products None None None 2 "Some ''cursor_4''"]
  have a: "resolve_products_paginated sample_products None None None 2 (Some ''cursor_4'') =
     resolve_products_paginated sample_products None None None 2 None"
    using t by (rule conjunct1)
  have "(0::int) \<le> 2" by simp
  with t obtain view c where
    v: "connection_view sample_products None None None = Inr view"
    and c: "resolve_products_paginated sample_products None None None 2 (Some ''cursor_4'') = Inr c"
      "map edge_node (conn_edges c) = take (nat 2) view"
      "conn_total_count c = int (length view)"
      "pi_has_next_page (conn_page_info c) = (2 < int (length view))"
      "\<not> pi_has_previous_page (conn_page_info c)"
    by blast
  have view: "view = [novel, mouse, tshirt, python_book, laptop]"
    using v by (simp add: sample_connection_view)
  have b: "\<exists>c. resolve_products_paginated sample_products None None None 2 (Some ''cursor_4'') =
        Inr c \<and>
      map edge_node (conn_edges c) = [novel, mouse] \<and>
      conn_total_count c = 5 \<and>
      pi_has_next_page (conn_page_info c) \<and>
      \<not> pi_has_previous_page (conn_page_info c)"
    using c unfolding view by (intro exI [of _ c]) simp
  show ?thesis by (intro conjI a b sample_connection_view) simp
qed

text \<open>
  C1 as the specification states it fails: \<open>not-a-cursor\<close> is no token the resolver ever
  issues, and the query returns the first page.
\<close>

theorem invalid_cursor_counterexample:
  "resolve_products_paginated sample_products None None None 2 (Some ''not-a-cursor'') =
   Inr \<lparr>conn_edges = [\<lparr>edge_node = novel, edge_cursor = ''cursor_5''\<rparr>,
                       \<lparr>edge_node = mouse, edge_cursor = ''cursor_4''\<rparr>],
        conn_page_info = \<lparr>pi_has_next_page = True, pi_has_previous_page = False,
                           pi_start_cursor = Some ''cursor_5'',
                           pi_end_cursor = Some ''cursor_4''\<rparr>,
        conn_total_count = 5\<rparr>"
  by (rule sample_connection)

text \<open>
  C5, as the code has it. On every page the cursor paginator returns, the cursor of an
  edge is the text \<open>cursor_\<close> followed by the decimal identifier of its record. It is a
  function of the identifier alone: two edges carry the same cursor if and only if their
  records have the same identifier, whatever their sort keys.
\<close>

theorem edge_cursor_is_record_id:
  assumes "resolve_products_paginated objects name category_id is_active first after = Inr c"
  shows "(\<forall>e\<in>set (conn_edges c).
            edge_cursor e = ''cursor_'' @ str_int (product_id (edge_node e))) \<and>
         (\<forall>e\<in>set (conn_edges c). \<forall>e'\<in>set (conn_edges c).
            edge_cursor e = edge_cursor e' \<longleftrightarrow>
              product_id (edge_node e) = product_id (edge_node e'))"
proof -
  have c: "\<forall>e\<in>set (conn_edges c).
            edge_cursor e = ''cursor_'' @ str_int (product_id (edge_node e))"
  proof
    fix e assume "e \<in> set (conn_edges c)"
    then have "e \<in> set (map (\<lambda>item. \<lparr>edge_node = item,
        edge_cursor = ''cursor_'' @ str_int (product_id item)\<rparr>) (map edge_node (conn_edges c)))"
      using connection_edges [OF assms] by simp
    then show "edge_cursor e = ''cursor_'' @ str_int (product_id (edge_node e))" by auto
  qed
  then show ?thesis using str_int_inj by auto
qed

theorem edge_cursor_is_record_id_witness:
  "resolve_products_paginated sample_products None None None 2 None =
     Inr \<lparr>conn_edges = [\<lparr>edge_node = novel, edge_cursor = ''cursor_5''\<rparr>,
                         \<lparr>edge_node = mouse, edge_cursor = ''cursor_4''\<rparr>],
          conn_page_info = \<lparr>pi_has_next_page = True, pi_has_previous_page = False,
                             pi_start_cursor = Some ''cursor_5'',
                             pi_end_cursor = Some ''cursor_4''\<rparr>,
          conn_total_count = 5\<rparr> \<and>
   ''cursor_5'' = ''cursor_'' @ str_int (product_id novel) \<and>
   ''cursor_4'' = ''cursor_'' @ str_int (product_id mouse) \<and>
   (''cursor_5'' = ''cursor_4'' \<longleftrightarrow> product_id novel = product_id mouse)"
  using edge_cursor_is_record_id [OF sample_connection [of None]] sample_connection [of None]
  by (simp add: sample_defs sample_product_sel str_int_def str_nat.simps)

text \<open>
  C5 as the specification states it fails: two rows with the identifier 4 and different
  creation times, the sort key of this resolver, get the same cursor.
\<close>

theorem cursor_without_sort_key_counterexample:
  "resolve_products_paginated [mouse] None None None 1 None =
     Inr \<lparr>conn_edges = [\<lparr>edge_node = mouse, edge_cursor = ''cursor_4''\<rparr>],
          conn_page_info = \<lparr>pi_has_next_page = False, pi_has_previous_page = False,
                             pi_start_cursor = Some ''cursor_4'',
                             pi_end_cursor = Some ''cursor_4''\<rparr>,
          conn_total_count = 1\<rparr> \<and>
   resolve_products_paginated [mouse\<lparr>product_created_at := 9\<rparr>] None None None 1 None =
     Inr \<lparr>conn_edges = [\<lparr>edge_node = mouse\<lparr>product_created_at := 9\<rparr>,
                          edge_cursor = ''cursor_4''\<rparr>],
          conn_page_info = \<lparr>pi_has_next_page = False, pi_has_previous_page = False,
                             pi_start_cursor = Some ''cursor_4'',
                             pi_end_cursor = Some ''cursor_4''\<rparr>,
          conn_total_count = 1\<rparr> \<and>
   product_created_at mouse = 4 \<and> product_created_at (mouse\<lparr>product_created_at := 9\<rparr>) = 9"
  by (simp add: resolve_products_paginated_def connection_view_def order_by_def column_le_def
      mouse_def sample_product_def opt_filter_def truthy_str_def truthy_int_def
      qs_slice_to_def str_int_def str_nat.simps)

subsection \<open>Aggregates\<close>

text \<open>
  C6, as the code has it. The performance summary over zero matching records has count
  0 and average, maximum and minimum null. The average product price is never null: over
  an empty product table it is the number 0.
\<close>

theorem empty_set_aggregates:
  "((\<forall>r\<in>set objects. perf_metric_type r \<noteq> metric_type) \<longrightarrow>
      resolve_performance_summary objects metric_type =
        \<lparr>pm_metric_type = metric_type, pm_average_value = None, pm_count = 0,
         pm_max_value = None, pm_min_value = None\<rparr>) \<and>
   resolve_avg_product_price products \<noteq> None \<and>
   resolve_avg_product_price [] = Some 0"
proof (intro conjI impI)
  assume "\<forall>r\<in>set objects. perf_metric_type r \<noteq> metric_type"
  then have "filter (\<lambda>r. perf_metric_type r = metric_type) objects = []"
    by (simp add: filter_empty_conv)
  then show "resolve_performance_summary objects metric_type =
        \<lparr>pm_metric_type = metric_type, pm_average_value = None, pm_count = 0,
         pm_max_value = None, pm_min_value = None\<rparr>"
    by (simp add: resolve_performance_summary_def Avg_def Count_def)
next
  show "resolve_avg_product_price products \<noteq> None"
    by (simp add: resolve_avg_product_price_def Let_def split: option.splits)
next
  show "resolve_avg_product_price [] = Some 0"
    by (simp add: resolve_avg_product_price_def Avg_def)
qed

theorem empty_set_aggregates_witness:
  "map perf_metric_type (db_performances sample_perf_db) = [''api_response'', ''api_response''] \<and>
   resolve_performance_summary (db_performances sample_perf_db) ''database'' =
     \<lparr>pm_metric_type = ''database'', pm_average_value = None, pm_count = 0,
      pm_max_value = None, pm_min_value = None\<rparr> \<and>
   resolve_performance_summary (db_performances sample_perf_db) ''api_response'' =
     \<lparr>pm_metric_type = ''api_response'', pm_average_value = Some 100, pm_count = 2,
      pm_max_value = Some 120, pm_min_value = Some 80\<rparr>"
proof -
  have h: "\<forall>r\<in>set (db_performances sample_perf_db). perf_metric_type r \<noteq> ''database''"
    by (simp add: sample_perf_db_def)
  have "resolve_performance_summary (db_performances sample_perf_db) ''database'' =
     \<lparr>pm_metric_type = ''database'', pm_average_value = None, pm_count = 0,
      pm_max_value = None, pm_min_value = None\<rparr>"
    using empty_set_aggregates [of "db_performances sample_perf_db" "''database''" "[]"] h
    by blast
  moreover have "resolve_performance_summary (db_performances sample_perf_db) ''api_response'' =
     \<lparr>pm_metric_type = ''api_response'', pm_average_value = Some 100, pm_count = 2,
      pm_max_value = Some 120, pm_min_value = Some 80\<rparr>"
    by (simp add: resolve_performance_summary_def sample_perf_db_def Avg_def Count_def)
  moreover have "map perf_metric_type (db_performances sample_perf_db) =
      [''api_response'', ''api_response'']"
    by (simp add: sample_perf_db_def)
  ultimately show ?thesis by blast
qed

text \<open>
  C6 as the specification states it fails: with no product at all the average price is
  the number 0, not null.
\<close>

theorem average_of_nothing_counterexample:
  "resolve_avg_product_price [] = Some 0"
  by (simp add: resolve_avg_product_price_def Avg_def)

subsection \<open>Lookups by identifier\<close>

text \<open>
  C9. For each of the seven lookups by identifier (author, book, product, category,
  organization, employee, project): when no row has the identifier, the resolver returns
  null, raises nothing, and leaves the database as it was.
\<close>

theorem lookup_of_missing_id:
  "((\<forall>r\<in>set (db_authors db1). author_id r \<noteq> pk) \<longrightarrow> resolve_author db1 pk = (Inr None, db1)) \<and>
   ((\<forall>r\<in>set (db_books db1). book_id r \<noteq> pk) \<longrightarrow> resolve_book db1 pk = (Inr None, db1)) \<and>
   ((\<forall>r\<in>set (db_products db3). product_id r \<noteq> pk) \<longrightarrow>
      resolve_product db3 pk = (Inr None, db3)) \<and>
   ((\<forall>r\<in>set (db_categories db3). cat_id r \<noteq> pk) \<longrightarrow>
      resolve_category db3 pk = (Inr None, db3)) \<and>
   ((\<forall>r\<in>set (db_organizations db5). org_id r \<noteq> pk) \<longrightarrow>
      resolve_organization db5 pk = (Inr None, db5)) \<and>
   ((\<forall>r\<in>set (db_employees db5). employee_id r \<noteq> pk) \<longrightarrow>
      resolve_employee db5 pk = (Inr None, db5)) \<and>
   ((\<forall>r\<in>set (db_projects db5). project_id r \<noteq> pk) \<longrightarrow>
      resolve_project db5 pk = (Inr None, db5))"
  by (simp add: resolve_author_def resolve_book_def resolve_product_def resolve_category_def
      resolve_organization_def resolve_employee_def resolve_project_def lookup_missing)

theorem lookup_of_missing_id_witness:
  "map author_id (db_authors sample_basics_db) = [1] \<and>
   map book_id (db_books sample_basics_db) = [1] \<and>
   map product_id (db_products sample_filtering_db) = [1, 2, 3, 4, 5] \<and>
   map cat_id (db_categories sample_filtering_db) = [1] \<and>
   map org_id (db_organizations sample_perf_db) = [1] \<and>
   map employee_id (db_employees sample_perf_db) = [1] \<and>
   map project_id (db_projects sample_perf_db) = [1] \<and>
   resolve_author sample_basics_db 7 = (Inr None, sample_basics_db) \<and>
   resolve_book sample_basics_db 7 = (Inr None, sample_basics_db) \<and>
   resolve_product sample_filtering_db 7 = (Inr None, sample_filtering_db) \<and>
   resolve_category sample_filtering_db 7 = (Inr None, sample_filtering_db) \<and>
   resolve_organization sample_perf_db 7 = (Inr None, sample_perf_db) \<and>
   resolve_employee sample_perf_db 7 = (Inr None, sample_perf_db) \<and>
   resolve_project sample_perf_db 7 = (Inr None, sample_perf_db)"
proof -
  have h: "\<forall>r\<in>set (db_authors sample_basics_db). author_id r \<noteq> 7"
    "\<forall>r\<in>set (db_books sample_basics_db). book_id r \<noteq> 7"
    "\<forall>r\<in>set (db_products sample_filtering_db). product_id r \<noteq> 7"
    "\<forall>r\<in>set (db_categories sample_filtering_db). cat_id r \<noteq> 7"
    "\<forall>r\<in>set (db_organizations sample_perf_db). org_id r \<noteq> 7"
    "\<forall>r\<in>set (db_employees sample_perf_db). employee_id r \<noteq> 7"
    "\<forall>r\<in>set (db_projects sample_perf_db). project_id r \<noteq> 7"
    by (simp_all add: sample_basics_db_def sample_filtering_db_def sample_perf_db_def
        sample_defs sample_product_sel)
  have ids: "map author_id (db_authors sample_basics_db) = [1]"
    "map book_id (db_books sample_basics_db) = [1]"
    "map product_id (db_products sample_filtering_db) = [1, 2, 3, 4, 5]"
    "map cat_id (db_categories sample_filtering_db) = [1]"
    "map org_id (db_organizations sample_perf_db) = [1]"
    "map employee_id (db_employees sample_perf_db) = [1]"
    "map project_id (db_projects sample_perf_db) = [1]"
    by (simp_all add: sample_basics_db_def sample_filtering_db_def sample_perf_db_def
        sample_defs sample_product_sel)
  show ?thesis
    using h ids lookup_of_missing_id [of sample_basics_db 7 sample_filtering_db sample_perf_db]
    by blast
qed


end
